theory Spec2Isabelle
  imports Complex_Main
begin

section \<open>Python values and exceptions\<close>

text \<open>
  The module \<^verbatim>\<open>backend/utils/summarize.py\<close> has three functions:
  \<^verbatim>\<open>validate_access_permissions\<close>, \<^verbatim>\<open>generate_summary_content\<close> and
  \<^verbatim>\<open>process_summary_generation\<close>. Everything else they touch is outside the file: the
  \<^verbatim>\<open>crud\<close> module, the Azure OpenAI client, the environment and the logger. The embedding
  takes these collaborators as parameters (an environment record of functions over an
  arbitrary database state and an arbitrary provider state) and records every call the
  three functions make to them in a trace, in program order.

  A Python \<^verbatim>\<open>str\<close> is modelled as the bytes of its UTF-8 encoding (\<^typ>\<open>string\<close>), so
  concatenation and containment are those of the source.
\<close>

text \<open>An identifier as the ORM or the caller hands it over: an \<^verbatim>\<open>int\<close> or a \<^verbatim>\<open>str\<close>
  (the annotations of the source use both for \<^verbatim>\<open>transcript_id\<close>).\<close>

datatype pyval = PInt int | PStr string

text \<open>\<^verbatim>\<open>str(n)\<close> for a natural number: its decimal digits.\<close>

fun str_nat :: "nat \<Rightarrow> string" where
  "str_nat n =
     (if n < 10 then [char_of (48 + n)]
      else str_nat (n div 10) @ [char_of (48 + n mod 10)])"

declare str_nat.simps [simp del]

text \<open>\<^verbatim>\<open>str(i)\<close> for a Python \<^verbatim>\<open>int\<close>.\<close>

definition str_int :: "int \<Rightarrow> string" where
  "str_int i = (if i < 0 then CHR ''-'' # str_nat (nat (- i)) else str_nat (nat i))"

text \<open>\<^verbatim>\<open>str(v)\<close>, also what an f-string field \<^verbatim>\<open>{v}\<close> renders.\<close>

fun py_str :: "pyval \<Rightarrow> string" where
  "py_str (PInt i) = str_int i"
| "py_str (PStr s) = s"

text \<open>
  The exceptions the module tells apart: \<^verbatim>\<open>HTTPException(status_code, detail)\<close>, which
  \<^verbatim>\<open>except HTTPException: raise\<close> lets through, and any other \<^verbatim>\<open>Exception\<close>, of which
  the module only ever reads \<^verbatim>\<open>str(e)\<close>.
\<close>

datatype exn = HTTPException int string | Exception string

section \<open>Records of the persistence layer and of the provider\<close>

text \<open>
  The ORM classes are not part of the file; the records hold the attributes the module
  reads. \<^verbatim>\<open>transcript.content\<close> and \<^verbatim>\<open>transcript.text\<close> are optional because line 116
  asks \<^verbatim>\<open>hasattr(transcript, 'content')\<close>: \<open>None\<close> is an object without the attribute.
\<close>

record transcript =
  transcript_video_id :: pyval
  transcript_dot_content :: "string option"
  transcript_dot_text :: "string option"

record video =
  video_minutes_id :: pyval

record minutes =
  minutes_user_id :: pyval

record summary =
  summary_id :: pyval
  summary_dot_content :: string

text \<open>One entry of \<^verbatim>\<open>messages\<close>, the keyword arguments of
  \<^verbatim>\<open>client.chat.completions.create\<close> (lines 75 to 83), and the part of its answer that
  line 84 reads (\<^verbatim>\<open>response.choices[0].message.content\<close>). The float literal
  \<^verbatim>\<open>0.7\<close> is kept as the decimal it is written as.\<close>

record message =
  role :: string
  content :: string

record request =
  model :: string
  messages :: "message list"
  temperature :: real
  max_tokens :: int

record choice =
  message_content :: string

record response =
  choices :: "choice list"

section \<open>The collaborators and the trace of calls\<close>

datatype event =
    GetTranscriptById pyval
  | GetVideoById pyval
  | GetMinutes pyval
  | CreateSummary pyval string
  | ChatCompletionsCreate request
  | LogError string
  | LogInfo string

text \<open>
  The collaborators, over a database state \<^typ>\<open>'d\<close> and a provider state \<^typ>\<open>'a\<close>. A call
  returns what the Python call returns or raises (\<open>Inl\<close>) and the state it leaves behind:
  nothing is assumed about them, so a lookup may raise, and two lookups of the same id may
  answer differently (other sessions write to the same database). The provider's failure
  is the \<^verbatim>\<open>str(e)\<close> of whatever it raised, the only thing line 86 reads of it.
  \<open>getenv_deployment_chat\<close> is \<^verbatim>\<open>os.getenv("AZURE_OPENAI_DEPLOYMENT_CHAT")\<close>.
\<close>

record ('d, 'a) env =
  get_transcript_by_id :: "'d \<Rightarrow> pyval \<Rightarrow> (exn + transcript option) \<times> 'd"
  get_video_by_id :: "'d \<Rightarrow> pyval \<Rightarrow> (exn + video option) \<times> 'd"
  get_minutes :: "'d \<Rightarrow> pyval \<Rightarrow> (exn + minutes option) \<times> 'd"
  create_summary :: "'d \<Rightarrow> pyval \<Rightarrow> string \<Rightarrow> (exn + summary) \<times> 'd"
  chat_completions_create :: "'a \<Rightarrow> request \<Rightarrow> (string + response) \<times> 'a"
  getenv_deployment_chat :: "string option"

record ('d, 'a) world =
  db :: 'd
  api :: 'a
  trace :: "event list"

definition emit :: "event \<Rightarrow> ('d, 'a) world \<Rightarrow> ('d, 'a) world" where
  "emit e w = w\<lparr>trace := trace w @ [e]\<rparr>"

definition logger_error :: "string \<Rightarrow> ('d, 'a) world \<Rightarrow> ('d, 'a) world" where
  "logger_error msg w = emit (LogError msg) w"

definition logger_info :: "string \<Rightarrow> ('d, 'a) world \<Rightarrow> ('d, 'a) world" where
  "logger_info msg w = emit (LogInfo msg) w"

definition crud_get_transcript_by_id ::
  "('d, 'a) env \<Rightarrow> ('d, 'a) world \<Rightarrow> pyval \<Rightarrow> (exn + transcript option) \<times> ('d, 'a) world" where
  "crud_get_transcript_by_id E w k =
     (case get_transcript_by_id E (db w) k of
        (r, d') \<Rightarrow> (r, (emit (GetTranscriptById k) w)\<lparr>db := d'\<rparr>))"

definition crud_get_video_by_id ::
  "('d, 'a) env \<Rightarrow> ('d, 'a) world \<Rightarrow> pyval \<Rightarrow> (exn + video option) \<times> ('d, 'a) world" where
  "crud_get_video_by_id E w k =
     (case get_video_by_id E (db w) k of
        (r, d') \<Rightarrow> (r, (emit (GetVideoById k) w)\<lparr>db := d'\<rparr>))"

definition crud_get_minutes ::
  "('d, 'a) env \<Rightarrow> ('d, 'a) world \<Rightarrow> pyval \<Rightarrow> (exn + minutes option) \<times> ('d, 'a) world" where
  "crud_get_minutes E w k =
     (case get_minutes E (db w) k of
        (r, d') \<Rightarrow> (r, (emit (GetMinutes k) w)\<lparr>db := d'\<rparr>))"

definition crud_create_summary ::
  "('d, 'a) env \<Rightarrow> ('d, 'a) world \<Rightarrow> pyval \<Rightarrow> string \<Rightarrow> (exn + summary) \<times> ('d, 'a) world" where
  "crud_create_summary E w k c =
     (case create_summary E (db w) k c of
        (r, d') \<Rightarrow> (r, (emit (CreateSummary k c) w)\<lparr>db := d'\<rparr>))"

definition client_chat_completions_create ::
  "('d, 'a) env \<Rightarrow> ('d, 'a) world \<Rightarrow> request \<Rightarrow> (string + response) \<times> ('d, 'a) world" where
  "client_chat_completions_create E w req =
     (case chat_completions_create E (api w) req of
        (r, a') \<Rightarrow> (r, (emit (ChatCompletionsCreate req) w)\<lparr>api := a'\<rparr>))"

section \<open>The string literals of the source\<close>

text \<open>line 31, the literal part of the f-string: "transcript data not found: transcript_id=".\<close>

definition log_transcript_not_found :: string where
  "log_transcript_not_found =
     [CHR 0xE6, CHR 0x96, CHR 0x87, CHR 0xE5, CHR 0xAD, CHR 0x97, CHR 0xE8, CHR 0xB5,
     CHR 0xB7, CHR 0xE3, CHR 0x81, CHR 0x93, CHR 0xE3, CHR 0x81, CHR 0x97, CHR 0xE3,
     CHR 0x83, CHR 0x87, CHR 0xE3, CHR 0x83, CHR 0xBC, CHR 0xE3, CHR 0x82, CHR 0xBF,
     CHR 0xE3, CHR 0x81, CHR 0x8C, CHR 0xE8, CHR 0xA6, CHR 0x8B, CHR 0xE3, CHR 0x81,
     CHR 0xA4, CHR 0xE3, CHR 0x81, CHR 0x8B, CHR 0xE3, CHR 0x82, CHR 0x8A, CHR 0xE3,
     CHR 0x81, CHR 0xBE, CHR 0xE3, CHR 0x81, CHR 0x9B, CHR 0xE3, CHR 0x82, CHR 0x93] @
     '': transcript_id=''"

text \<open>line 34: "no data found for the given transcript id".\<close>

definition detail_transcript_not_found :: string where
  "detail_transcript_not_found =
     [CHR 0xE6, CHR 0x8C, CHR 0x87, CHR 0xE5, CHR 0xAE, CHR 0x9A, CHR 0xE3, CHR 0x81,
     CHR 0x95, CHR 0xE3, CHR 0x82, CHR 0x8C, CHR 0xE3, CHR 0x81, CHR 0x9F, CHR 0xE6,
     CHR 0x96, CHR 0x87, CHR 0xE5, CHR 0xAD, CHR 0x97, CHR 0xE8, CHR 0xB5, CHR 0xB7,
     CHR 0xE3, CHR 0x81, CHR 0x93, CHR 0xE3, CHR 0x81, CHR 0x97] @ ''ID'' @ [CHR 0xE3,
     CHR 0x81, CHR 0xAE, CHR 0xE3, CHR 0x83, CHR 0x87, CHR 0xE3, CHR 0x83, CHR 0xBC,
     CHR 0xE3, CHR 0x82, CHR 0xBF, CHR 0xE3, CHR 0x81, CHR 0x8C, CHR 0xE8, CHR 0xA6,
     CHR 0x8B, CHR 0xE3, CHR 0x81, CHR 0xA4, CHR 0xE3, CHR 0x81, CHR 0x8B, CHR 0xE3,
     CHR 0x82, CHR 0x8A, CHR 0xE3, CHR 0x81, CHR 0xBE, CHR 0xE3, CHR 0x81, CHR 0x9B,
     CHR 0xE3, CHR 0x82, CHR 0x93]"

text \<open>line 42: "video not found".\<close>

definition detail_video_not_found :: string where
  "detail_video_not_found =
     [CHR 0xE5, CHR 0x8B, CHR 0x95, CHR 0xE7, CHR 0x94, CHR 0xBB, CHR 0xE3, CHR 0x81,
     CHR 0x8C, CHR 0xE8, CHR 0xA6, CHR 0x8B, CHR 0xE3, CHR 0x81, CHR 0xA4, CHR 0xE3,
     CHR 0x81, CHR 0x8B, CHR 0xE3, CHR 0x82, CHR 0x8A, CHR 0xE3, CHR 0x81, CHR 0xBE,
     CHR 0xE3, CHR 0x81, CHR 0x9B, CHR 0xE3, CHR 0x82, CHR 0x93]"

text \<open>line 48, the literal part of the f-string: "minutes data not found: minutes_id=".\<close>

definition log_minutes_not_found :: string where
  "log_minutes_not_found =
     [CHR 0xE8, CHR 0xAD, CHR 0xB0, CHR 0xE4, CHR 0xBA, CHR 0x8B, CHR 0xE9, CHR 0x8C,
     CHR 0xB2, CHR 0xE3, CHR 0x83, CHR 0x87, CHR 0xE3, CHR 0x83, CHR 0xBC, CHR 0xE3,
     CHR 0x82, CHR 0xBF, CHR 0xE3, CHR 0x81, CHR 0x8C, CHR 0xE8, CHR 0xA6, CHR 0x8B,
     CHR 0xE3, CHR 0x81, CHR 0xA4, CHR 0xE3, CHR 0x81, CHR 0x8B, CHR 0xE3, CHR 0x82,
     CHR 0x8A, CHR 0xE3, CHR 0x81, CHR 0xBE, CHR 0xE3, CHR 0x81, CHR 0x9B, CHR 0xE3,
     CHR 0x82, CHR 0x93] @ '': minutes_id=''"

text \<open>line 51: "minutes data not found".\<close>

definition detail_minutes_not_found :: string where
  "detail_minutes_not_found =
     [CHR 0xE8, CHR 0xAD, CHR 0xB0, CHR 0xE4, CHR 0xBA, CHR 0x8B, CHR 0xE9, CHR 0x8C,
     CHR 0xB2, CHR 0xE3, CHR 0x83, CHR 0x87, CHR 0xE3, CHR 0x83, CHR 0xBC, CHR 0xE3,
     CHR 0x82, CHR 0xBF, CHR 0xE3, CHR 0x81, CHR 0x8C, CHR 0xE8, CHR 0xA6, CHR 0x8B,
     CHR 0xE3, CHR 0x81, CHR 0xA4, CHR 0xE3, CHR 0x81, CHR 0x8B, CHR 0xE3, CHR 0x82,
     CHR 0x8A, CHR 0xE3, CHR 0x81, CHR 0xBE, CHR 0xE3, CHR 0x81, CHR 0x9B, CHR 0xE3,
     CHR 0x82, CHR 0x93]"

text \<open>line 55, the first literal part of the f-string: "no access permission: minutes_user_id=".\<close>

definition log_forbidden :: string where
  "log_forbidden =
     [CHR 0xE3, CHR 0x82, CHR 0xA2, CHR 0xE3, CHR 0x82, CHR 0xAF, CHR 0xE3, CHR 0x82,
     CHR 0xBB, CHR 0xE3, CHR 0x82, CHR 0xB9, CHR 0xE6, CHR 0xA8, CHR 0xA9, CHR 0xE9,
     CHR 0x99, CHR 0x90, CHR 0xE3, CHR 0x81, CHR 0x8C, CHR 0xE3, CHR 0x81, CHR 0x82,
     CHR 0xE3, CHR 0x82, CHR 0x8A, CHR 0xE3, CHR 0x81, CHR 0xBE, CHR 0xE3, CHR 0x81,
     CHR 0x9B, CHR 0xE3, CHR 0x82, CHR 0x93] @ '': minutes_user_id=''"

text \<open>line 58: "you have no access permission for these minutes".\<close>

definition detail_forbidden :: string where
  "detail_forbidden =
     [CHR 0xE3, CHR 0x81, CHR 0x93, CHR 0xE3, CHR 0x81, CHR 0xAE, CHR 0xE8, CHR 0xAD,
     CHR 0xB0, CHR 0xE4, CHR 0xBA, CHR 0x8B, CHR 0xE9, CHR 0x8C, CHR 0xB2, CHR 0xE3,
     CHR 0x81, CHR 0xB8, CHR 0xE3, CHR 0x81, CHR 0xAE, CHR 0xE3, CHR 0x82, CHR 0xA2,
     CHR 0xE3, CHR 0x82, CHR 0xAF, CHR 0xE3, CHR 0x82, CHR 0xBB, CHR 0xE3, CHR 0x82,
     CHR 0xB9, CHR 0xE6, CHR 0xA8, CHR 0xA9, CHR 0xE9, CHR 0x99, CHR 0x90, CHR 0xE3,
     CHR 0x81, CHR 0x8C, CHR 0xE3, CHR 0x81, CHR 0x82, CHR 0xE3, CHR 0x82, CHR 0x8A,
     CHR 0xE3, CHR 0x81, CHR 0xBE, CHR 0xE3, CHR 0x81, CHR 0x9B, CHR 0xE3, CHR 0x82,
     CHR 0x93]"

text \<open>line 78, the system instruction: summarise in markdown, headings with ### only.\<close>

definition system_prompt :: string where
  "system_prompt =
     [CHR 0xE3, CHR 0x81, CHR 0x82, CHR 0xE3, CHR 0x81, CHR 0xAA, CHR 0xE3, CHR 0x81,
     CHR 0x9F, CHR 0xE3, CHR 0x81, CHR 0xAF, CHR 0xE4, CHR 0xBC, CHR 0x9A, CHR 0xE8,
     CHR 0xAD, CHR 0xB0, CHR 0xE3, CHR 0x81, CHR 0xAE, CHR 0xE8, CHR 0xAD, CHR 0xB0,
     CHR 0xE4, CHR 0xBA, CHR 0x8B, CHR 0xE9, CHR 0x8C, CHR 0xB2, CHR 0xE3, CHR 0x82,
     CHR 0x92, CHR 0xE8, CHR 0xA6, CHR 0x81, CHR 0xE7, CHR 0xB4, CHR 0x84, CHR 0xE3,
     CHR 0x81, CHR 0x99, CHR 0xE3, CHR 0x82, CHR 0x8B, CHR 0xE5, CHR 0xB0, CHR 0x82,
     CHR 0xE9, CHR 0x96, CHR 0x80, CHR 0xE5, CHR 0xAE, CHR 0xB6, CHR 0xE3, CHR 0x81,
     CHR 0xA7, CHR 0xE3, CHR 0x81, CHR 0x99, CHR 0xE3, CHR 0x80, CHR 0x82, CHR 0xE4,
     CHR 0xB8, CHR 0x8E, CHR 0xE3, CHR 0x81, CHR 0x88, CHR 0xE3, CHR 0x82, CHR 0x89,
     CHR 0xE3, CHR 0x82, CHR 0x8C, CHR 0xE3, CHR 0x81, CHR 0x9F, CHR 0xE6, CHR 0x96,
     CHR 0x87, CHR 0xE5, CHR 0xAD, CHR 0x97, CHR 0xE8, CHR 0xB5, CHR 0xB7, CHR 0xE3,
     CHR 0x81, CHR 0x93, CHR 0xE3, CHR 0x81, CHR 0x97, CHR 0xE6, CHR 0x96, CHR 0x87,
     CHR 0xE7, CHR 0xAB, CHR 0xA0, CHR 0xE3, CHR 0x82, CHR 0x92, CHR 0xE3, CHR 0x80,
     CHR 0x81, CHR 0xE9, CHR 0x87, CHR 0x8D, CHR 0xE8, CHR 0xA6, CHR 0x81, CHR 0xE3,
     CHR 0x81, CHR 0xAA, CHR 0xE3, CHR 0x83, CHR 0x9D, CHR 0xE3, CHR 0x82, CHR 0xA4,
     CHR 0xE3, CHR 0x83, CHR 0xB3, CHR 0xE3, CHR 0x83, CHR 0x88, CHR 0xE3, CHR 0x82,
     CHR 0x92, CHR 0xE6, CHR 0xBC, CHR 0x8F, CHR 0xE3, CHR 0x82, CHR 0x89, CHR 0xE3,
     CHR 0x81, CHR 0x95, CHR 0xE3, CHR 0x81, CHR 0x9A, CHR 0xE3, CHR 0x80, CHR 0x81,
     CHR 0xE7, CHR 0xB0, CHR 0xA1, CHR 0xE6, CHR 0xBD, CHR 0x94, CHR 0xE3, CHR 0x81,
     CHR 0xAB, CHR 0xE3, CHR 0x83, CHR 0x9E, CHR 0xE3, CHR 0x83, CHR 0xBC, CHR 0xE3,
     CHR 0x82, CHR 0xAF, CHR 0xE3, CHR 0x83, CHR 0x80, CHR 0xE3, CHR 0x82, CHR 0xA6,
     CHR 0xE3, CHR 0x83, CHR 0xB3, CHR 0xE8, CHR 0xA8, CHR 0x98, CHR 0xE6, CHR 0xB3,
     CHR 0x95, CHR 0xE3, CHR 0x81, CHR 0xA7, CHR 0xE8, CHR 0xA6, CHR 0x81, CHR 0xE7,
     CHR 0xB4, CHR 0x84, CHR 0xE3, CHR 0x81, CHR 0x97, CHR 0xE3, CHR 0x81, CHR 0xA6,
     CHR 0xE3, CHR 0x81, CHR 0x8F, CHR 0xE3, CHR 0x81, CHR 0xA0, CHR 0xE3, CHR 0x81,
     CHR 0x95, CHR 0xE3, CHR 0x81, CHR 0x84, CHR 0xE3, CHR 0x80, CHR 0x82, CHR 0xE8,
     CHR 0xA6, CHR 0x8B, CHR 0xE5, CHR 0x87, CHR 0xBA, CHR 0xE3, CHR 0x81, CHR 0x97,
     CHR 0xE3, CHR 0x81, CHR 0xAB, CHR 0xE3, CHR 0x81, CHR 0xAF, CHR 0x60] @ ''### '' @
     [CHR 0xE3, CHR 0x82, CHR 0x92, CHR 0xE4, CHR 0xBD, CHR 0xBF, CHR 0xE3, CHR 0x81,
     CHR 0xA3, CHR 0xE3, CHR 0x81, CHR 0xA6, CHR 0xE3, CHR 0x81, CHR 0x8F, CHR 0xE3,
     CHR 0x81, CHR 0xA0, CHR 0xE3, CHR 0x81, CHR 0x95, CHR 0xE3, CHR 0x81, CHR 0x84,
     CHR 0xE3, CHR 0x80, CHR 0x82, CHR 0xE3, CHR 0x81, CHR 0x9D, CHR 0xE3, CHR 0x82,
     CHR 0x8C, CHR 0xE4, CHR 0xBB, CHR 0xA5, CHR 0xE4, CHR 0xB8, CHR 0x8A, CHR 0xE3,
     CHR 0x81, CHR 0xAE, CHR 0xE5, CHR 0xA4, CHR 0xA7, CHR 0xE3, CHR 0x81, CHR 0x8D,
     CHR 0xE3, CHR 0x81, CHR 0xAA, CHR 0xE8, CHR 0xA6, CHR 0x8B, CHR 0xE5, CHR 0x87,
     CHR 0xBA, CHR 0xE3, CHR 0x81, CHR 0x97] @ '' # '' @ [CHR 0xE3, CHR 0x82, CHR 0x84] @
     '' ## '' @ [CHR 0xE3, CHR 0x81, CHR 0xAF, CHR 0xE4, CHR 0xBD, CHR 0xBF, CHR 0xE3,
     CHR 0x82, CHR 0x8F, CHR 0xE3, CHR 0x81, CHR 0xAA, CHR 0xE3, CHR 0x81, CHR 0x84,
     CHR 0xE3, CHR 0x81, CHR 0xA7, CHR 0xE3, CHR 0x81, CHR 0x8F, CHR 0xE3, CHR 0x81,
     CHR 0xA0, CHR 0xE3, CHR 0x81, CHR 0x95, CHR 0xE3, CHR 0x81, CHR 0x84, CHR 0xE3,
     CHR 0x80, CHR 0x82]"

text \<open>line 79, the literal part of the f-string: "please summarise the following meeting transcript:" and two newlines.\<close>

definition user_prompt :: string where
  "user_prompt =
     [CHR 0xE4, CHR 0xBB, CHR 0xA5, CHR 0xE4, CHR 0xB8, CHR 0x8B, CHR 0xE3, CHR 0x81,
     CHR 0xAE, CHR 0xE4, CHR 0xBC, CHR 0x9A, CHR 0xE8, CHR 0xAD, CHR 0xB0, CHR 0xE3,
     CHR 0x81, CHR 0xAE, CHR 0xE6, CHR 0x96, CHR 0x87, CHR 0xE5, CHR 0xAD, CHR 0x97,
     CHR 0xE8, CHR 0xB5, CHR 0xB7, CHR 0xE3, CHR 0x81, CHR 0x93, CHR 0xE3, CHR 0x81,
     CHR 0x97, CHR 0xE3, CHR 0x82, CHR 0x92, CHR 0xE8, CHR 0xA6, CHR 0x81, CHR 0xE7,
     CHR 0xB4, CHR 0x84, CHR 0xE3, CHR 0x81, CHR 0x97, CHR 0xE3, CHR 0x81, CHR 0xA6,
     CHR 0xE3, CHR 0x81, CHR 0x8F, CHR 0xE3, CHR 0x81, CHR 0xA0, CHR 0xE3, CHR 0x81,
     CHR 0x95, CHR 0xE3, CHR 0x81, CHR 0x84, CHR 0xEF, CHR 0xBC, CHR 0x9A, CHR 0x0A,
     CHR 0x0A]"

text \<open>lines 86 and 131, the literal part of the f-string: "an error occurred while generating the summary: ".\<close>

definition error_prefix :: string where
  "error_prefix =
     [CHR 0xE8, CHR 0xA6, CHR 0x81, CHR 0xE7, CHR 0xB4, CHR 0x84, CHR 0xE3, CHR 0x81,
     CHR 0xAE, CHR 0xE7, CHR 0x94, CHR 0x9F, CHR 0xE6, CHR 0x88, CHR 0x90, CHR 0xE4,
     CHR 0xB8, CHR 0xAD, CHR 0xE3, CHR 0x81, CHR 0xAB, CHR 0xE3, CHR 0x82, CHR 0xA8,
     CHR 0xE3, CHR 0x83, CHR 0xA9, CHR 0xE3, CHR 0x83, CHR 0xBC, CHR 0xE3, CHR 0x81,
     CHR 0x8C, CHR 0xE7, CHR 0x99, CHR 0xBA, CHR 0xE7, CHR 0x94, CHR 0x9F, CHR 0xE3,
     CHR 0x81, CHR 0x97, CHR 0xE3, CHR 0x81, CHR 0xBE, CHR 0xE3, CHR 0x81, CHR 0x97,
     CHR 0xE3, CHR 0x81, CHR 0x9F] @ '': ''"

text \<open>line 109, the first literal part of the f-string: "summary generation request: transcript_id=".\<close>

definition log_request :: string where
  "log_request =
     [CHR 0xE8, CHR 0xA6, CHR 0x81, CHR 0xE7, CHR 0xB4, CHR 0x84, CHR 0xE7, CHR 0x94,
     CHR 0x9F, CHR 0xE6, CHR 0x88, CHR 0x90, CHR 0xE3, CHR 0x83, CHR 0xAA, CHR 0xE3,
     CHR 0x82, CHR 0xAF, CHR 0xE3, CHR 0x82, CHR 0xA8, CHR 0xE3, CHR 0x82, CHR 0xB9,
     CHR 0xE3, CHR 0x83, CHR 0x88] @ '': transcript_id=''"

text \<open>line 120: "summary generation completed".\<close>

definition log_generated :: string where
  "log_generated =
     [CHR 0xE8, CHR 0xA6, CHR 0x81, CHR 0xE7, CHR 0xB4, CHR 0x84, CHR 0xE3, CHR 0x81,
     CHR 0xAE, CHR 0xE7, CHR 0x94, CHR 0x9F, CHR 0xE6, CHR 0x88, CHR 0x90, CHR 0xE3,
     CHR 0x81, CHR 0x8C, CHR 0xE5, CHR 0xAE, CHR 0x8C, CHR 0xE4, CHR 0xBA, CHR 0x86,
     CHR 0xE3, CHR 0x81, CHR 0x97, CHR 0xE3, CHR 0x81, CHR 0xBE, CHR 0xE3, CHR 0x81,
     CHR 0x97, CHR 0xE3, CHR 0x81, CHR 0x9F]"

text \<open>line 124, the literal part of the f-string: "summary created/updated: summary_id=".\<close>

definition log_saved :: string where
  "log_saved =
     [CHR 0xE3, CHR 0x82, CHR 0xB5, CHR 0xE3, CHR 0x83, CHR 0x9E, CHR 0xE3, CHR 0x83,
     CHR 0xAA, CHR 0xE3, CHR 0x83, CHR 0xBC, CHR 0xE3, CHR 0x82, CHR 0x92, CHR 0xE4,
     CHR 0xBD, CHR 0x9C, CHR 0xE6, CHR 0x88, CHR 0x90] @ ''/'' @ [CHR 0xE6, CHR 0x9B,
     CHR 0xB4, CHR 0xE6, CHR 0x96, CHR 0xB0, CHR 0xE3, CHR 0x81, CHR 0x97, CHR 0xE3,
     CHR 0x81, CHR 0xBE, CHR 0xE3, CHR 0x81, CHR 0x97, CHR 0xE3, CHR 0x81, CHR 0x9F] @
     '': summary_id=''"

text \<open>The second literal part of the f-strings of lines 55 and 109.\<close>

definition log_request_user_id :: string where
  "log_request_user_id = '', request_user_id=''"

definition log_user_id :: string where
  "log_user_id = '', user_id=''"

text \<open>The default of \<^verbatim>\<open>os.getenv("AZURE_OPENAI_DEPLOYMENT_CHAT", "gpt-4.1")\<close>.\<close>

definition default_deployment :: string where
  "default_deployment = ''gpt-4.1''"

text \<open>\<^verbatim>\<open>str(e)\<close> of the \<^verbatim>\<open>IndexError\<close> of \<^verbatim>\<open>choices[0]\<close> on an empty list, and of the
  \<^verbatim>\<open>AttributeError\<close> of reading attribute \<open>a\<close> of an object of class \<open>c\<close>.\<close>

definition index_error :: string where
  "index_error = ''list index out of range''"

definition attribute_error :: "string \<Rightarrow> string \<Rightarrow> string" where
  "attribute_error c a =
     [CHR 0x27] @ c @ [CHR 0x27] @ '' object has no attribute '' @ [CHR 0x27] @ a @ [CHR 0x27]"

section \<open>validate_access_permissions (lines 17 to 59)\<close>

text \<open>A lookup returns the record or \<^verbatim>\<open>None\<close>; the tests \<^verbatim>\<open>if not transcript\<close>,
  \<^verbatim>\<open>if not video\<close> and \<^verbatim>\<open>if not minutes\<close> are the tests for \<^verbatim>\<open>None\<close>, an ORM object being
  true. Each branch lists its effects in the order of the source: the log entry, where
  there is one, then the \<^verbatim>\<open>raise\<close>.\<close>

definition validate_access_permissions ::
  "('d, 'a) env \<Rightarrow> ('d, 'a) world \<Rightarrow> pyval \<Rightarrow> pyval \<Rightarrow> (exn + unit) \<times> ('d, 'a) world" where
  "validate_access_permissions E w transcript_id user_id =
     (case crud_get_transcript_by_id E w transcript_id of
        (Inl e, w1) \<Rightarrow> (Inl e, w1)
      | (Inr None, w1) \<Rightarrow>
          (Inl (HTTPException 404 detail_transcript_not_found),
           logger_error (log_transcript_not_found @ py_str transcript_id) w1)
      | (Inr (Some transcript), w1) \<Rightarrow>
     (case crud_get_video_by_id E w1 (transcript_video_id transcript) of
        (Inl e, w2) \<Rightarrow> (Inl e, w2)
      | (Inr None, w2) \<Rightarrow>
          (Inl (HTTPException 404 detail_video_not_found), w2)
      | (Inr (Some video), w2) \<Rightarrow>
     (case crud_get_minutes E w2 (video_minutes_id video) of
        (Inl e, w3) \<Rightarrow> (Inl e, w3)
      | (Inr None, w3) \<Rightarrow>
          (Inl (HTTPException 404 detail_minutes_not_found),
           logger_error (log_minutes_not_found @ py_str (video_minutes_id video)) w3)
      | (Inr (Some minutes), w3) \<Rightarrow>
          if py_str (minutes_user_id minutes) \<noteq> py_str user_id then
            (Inl (HTTPException 403 detail_forbidden),
             logger_error
               (log_forbidden @ py_str (minutes_user_id minutes) @ log_request_user_id @
                py_str user_id) w3)
          else (Inr (), w3))))"

section \<open>generate_summary_content (lines 61 to 91)\<close>

text \<open>The keyword arguments of lines 76 to 82.\<close>

definition completion_request :: "('d, 'a) env \<Rightarrow> string \<Rightarrow> request" where
  "completion_request E transcript_content =
     \<lparr>model = (case getenv_deployment_chat E of None \<Rightarrow> default_deployment | Some m \<Rightarrow> m),
      messages =
        [\<lparr>role = ''system'', content = system_prompt\<rparr>,
         \<lparr>role = ''user'', content = user_prompt @ transcript_content\<rparr>],
      temperature = 0.7,
      max_tokens = 1000\<rparr>"

text \<open>The handler of lines 85 to 91, which lines 130 to 136 repeat: build the message
  from \<^verbatim>\<open>str(e)\<close>, log it, raise \<^verbatim>\<open>HTTPException(500, error_message)\<close>.\<close>

definition raise_internal ::
  "string \<Rightarrow> ('d, 'a) world \<Rightarrow> (exn + 'r) \<times> ('d, 'a) world" where
  "raise_internal str_e w =
     (let error_message = error_prefix @ str_e
      in (Inl (HTTPException 500 error_message), logger_error error_message w))"

definition generate_summary_content ::
  "('d, 'a) env \<Rightarrow> ('d, 'a) world \<Rightarrow> string \<Rightarrow> (exn + string) \<times> ('d, 'a) world" where
  "generate_summary_content E w transcript_content =
     (case client_chat_completions_create E w (completion_request E transcript_content) of
        (Inl str_e, w1) \<Rightarrow> raise_internal str_e w1
      | (Inr response, w1) \<Rightarrow>
          (case choices response of
             [] \<Rightarrow> raise_internal index_error w1
           | c # _ \<Rightarrow> (Inr (message_content c), w1)))"

section \<open>process_summary_generation (lines 93 to 136)\<close>

text \<open>Line 116: \<^verbatim>\<open>transcript.content if hasattr(transcript, 'content') else transcript.text\<close>,
  on what the lookup of line 115 returned. On \<^verbatim>\<open>None\<close> both attributes are missing and
  the read of \<^verbatim>\<open>text\<close> raises \<^verbatim>\<open>AttributeError\<close>.
  Modelled from the spec: the ORM class of a transcript record is not in the source; the
  spec calls the entity Transcript, which is the class name used in the message of the
  \<^verbatim>\<open>AttributeError\<close> of a record that has neither attribute.\<close>

definition read_transcript_content :: "transcript option \<Rightarrow> exn + string" where
  "read_transcript_content r =
     (case r of
        None \<Rightarrow> Inl (Exception (attribute_error ''NoneType'' ''text''))
      | Some transcript \<Rightarrow>
          (case transcript_dot_content transcript of
             Some c \<Rightarrow> Inr c
           | None \<Rightarrow>
               (case transcript_dot_text transcript of
                  Some t \<Rightarrow> Inr t
                | None \<Rightarrow> Inl (Exception (attribute_error ''Transcript'' ''text'')))))"

text \<open>The body of the \<^verbatim>\<open>try\<close> block, lines 109 to 126.\<close>

definition process_summary_generation_try ::
  "('d, 'a) env \<Rightarrow> ('d, 'a) world \<Rightarrow> pyval \<Rightarrow> pyval \<Rightarrow> (exn + string) \<times> ('d, 'a) world" where
  "process_summary_generation_try E w transcript_id user_id =
     (case validate_access_permissions E
             (logger_info
                (log_request @ py_str transcript_id @ log_user_id @ py_str user_id) w)
             transcript_id user_id of
        (Inl e, w1) \<Rightarrow> (Inl e, w1)
      | (Inr _, w1) \<Rightarrow>
     (case crud_get_transcript_by_id E w1 transcript_id of
        (Inl e, w2) \<Rightarrow> (Inl e, w2)
      | (Inr transcript, w2) \<Rightarrow>
     (case read_transcript_content transcript of
        Inl e \<Rightarrow> (Inl e, w2)
      | Inr transcript_content \<Rightarrow>
     (case generate_summary_content E w2 transcript_content of
        (Inl e, w3) \<Rightarrow> (Inl e, w3)
      | (Inr summary_content, w3) \<Rightarrow>
     (case crud_create_summary E (logger_info log_generated w3) transcript_id
             summary_content of
        (Inl e, w4) \<Rightarrow> (Inl e, w4)
      | (Inr summary, w4) \<Rightarrow>
          (Inr (summary_dot_content summary),
           logger_info (log_saved @ py_str (summary_id summary)) w4))))))"

text \<open>The two handlers, lines 128 to 136.\<close>

definition process_summary_generation ::
  "('d, 'a) env \<Rightarrow> ('d, 'a) world \<Rightarrow> pyval \<Rightarrow> pyval \<Rightarrow> (exn + string) \<times> ('d, 'a) world" where
  "process_summary_generation E w transcript_id user_id =
     (case process_summary_generation_try E w transcript_id user_id of
        (Inl (HTTPException status_code detail), w') \<Rightarrow>
          (Inl (HTTPException status_code detail), w')
      | (Inl (Exception str_e), w') \<Rightarrow> raise_internal str_e w'
      | (Inr r, w') \<Rightarrow> (Inr r, w'))"

section \<open>Observations on a trace\<close>

text \<open>The calls that reach beyond reading and logging: a request to the provider and a
  write to the database.\<close>

fun is_effect :: "event \<Rightarrow> bool" where
  "is_effect (CreateSummary k c) = True"
| "is_effect (ChatCompletionsCreate req) = True"
| "is_effect e = False"

definition effects :: "event list \<Rightarrow> event list" where
  "effects es = filter is_effect es"

fun is_write :: "event \<Rightarrow> bool" where
  "is_write (CreateSummary k c) = True"
| "is_write e = False"

definition writes :: "event list \<Rightarrow> event list" where
  "writes es = filter is_write es"

fun is_log :: "event \<Rightarrow> bool" where
  "is_log (LogError m) = True"
| "is_log (LogInfo m) = True"
| "is_log e = False"

fun completion_requests :: "event list \<Rightarrow> request list" where
  "completion_requests [] = []"
| "completion_requests (ChatCompletionsCreate req # es) = req # completion_requests es"
| "completion_requests (e # es) = completion_requests es"

text \<open>The lookups of an environment are read-only when none of them changes the
  database state it is given.\<close>

definition lookups_read_only :: "('d, 'a) env \<Rightarrow> bool" where
  "lookups_read_only E =
     (\<forall>d k. snd (get_transcript_by_id E d k) = d \<and> snd (get_video_by_id E d k) = d \<and>
            snd (get_minutes E d k) = d)"

section \<open>An in-memory persistence layer and a stubbed provider\<close>

text \<open>
  Modelled from the spec: the \<^verbatim>\<open>crud\<close> module is not in the source. The spec gives its
  contract: \<^verbatim>\<open>getTranscriptById\<close>, \<^verbatim>\<open>getVideoById\<close> and \<^verbatim>\<open>getMinutes\<close> return the record
  of the id or nothing, and \<^verbatim>\<open>createSummary(session, transcriptId, text)\<close> creates or
  updates the one summary of the transcript and returns it. The tables are association
  lists keyed by id (the summaries by transcript id). The environments below are used
  for concrete runs only; every general statement is about an arbitrary environment.
\<close>

record store =
  transcripts :: "(pyval \<times> transcript) list"
  videos :: "(pyval \<times> video) list"
  minutes_docs :: "(pyval \<times> minutes) list"
  summaries :: "(pyval \<times> summary) list"

fun upsert :: "'k \<Rightarrow> 'v \<Rightarrow> ('k \<times> 'v) list \<Rightarrow> ('k \<times> 'v) list" where
  "upsert k v [] = [(k, v)]"
| "upsert k v ((k', v') # kvs) =
     (if k = k' then (k, v) # kvs else (k', v') # upsert k v kvs)"

definition mem_create_summary :: "store \<Rightarrow> pyval \<Rightarrow> string \<Rightarrow> (exn + summary) \<times> store" where
  "mem_create_summary s transcript_id c =
     (let new =
        \<lparr>summary_id =
           (case map_of (summaries s) transcript_id of
              Some old \<Rightarrow> summary_id old
            | None \<Rightarrow> PInt (int (length (summaries s)) + 1)),
         summary_dot_content = c\<rparr>
      in (Inr new, s\<lparr>summaries := upsert transcript_id new (summaries s)\<rparr>))"

text \<open>The provider is a stub that answers every request with \<open>reply\<close>; its state counts
  the requests it has received.\<close>

definition mem_env :: "string + response \<Rightarrow> (store, nat) env" where
  "mem_env reply =
     \<lparr>get_transcript_by_id = (\<lambda>s k. (Inr (map_of (transcripts s) k), s)),
      get_video_by_id = (\<lambda>s k. (Inr (map_of (videos s) k), s)),
      get_minutes = (\<lambda>s k. (Inr (map_of (minutes_docs s) k), s)),
      create_summary = mem_create_summary,
      chat_completions_create = (\<lambda>n req. (reply, Suc n)),
      getenv_deployment_chat = None\<rparr>"

text \<open>A database on which another session deletes a transcript right after this session
  has read it: the lookup answers from the table and leaves the table without the row.\<close>

definition racing_env :: "string + response \<Rightarrow> (store, nat) env" where
  "racing_env reply =
     (mem_env reply)
       \<lparr>get_transcript_by_id :=
          (\<lambda>s k. (Inr (map_of (transcripts s) k),
                   s\<lparr>transcripts := filter (\<lambda>kv. fst kv \<noteq> k) (transcripts s)\<rparr>))\<rparr>"

text \<open>A database whose \<^verbatim>\<open>create_summary\<close> raises an exception with message \<open>msg\<close>.\<close>

definition broken_env :: "string \<Rightarrow> string + response \<Rightarrow> (store, nat) env" where
  "broken_env msg reply =
     (mem_env reply)\<lparr>create_summary := (\<lambda>s k c. (Inl (Exception msg), s))\<rparr>"

text \<open>The tables of the concrete runs. Transcript 1 has the whole chain, owned by user
  \<open>7\<close> (an \<^verbatim>\<open>int\<close> in the table); transcript 2 refers to a video that does not exist;
  transcript 3 to a video whose minutes do not exist; transcript 4 keeps its text in the
  attribute \<^verbatim>\<open>text\<close>.\<close>

definition demo_store :: store where
  "demo_store =
     \<lparr>transcripts =
        [(PInt 1, \<lparr>transcript_video_id = PInt 10,
                   transcript_dot_content = Some ''Meeting about budget.'',
                   transcript_dot_text = None\<rparr>),
         (PInt 2, \<lparr>transcript_video_id = PInt 20,
                   transcript_dot_content = Some ''Weekly sync.'',
                   transcript_dot_text = None\<rparr>),
         (PInt 3, \<lparr>transcript_video_id = PInt 30,
                   transcript_dot_content = Some ''Kickoff.'',
                   transcript_dot_text = None\<rparr>),
         (PInt 4, \<lparr>transcript_video_id = PInt 10,
                   transcript_dot_content = None,
                   transcript_dot_text = Some ''Retrospective.''\<rparr>)],
      videos = [(PInt 10, \<lparr>video_minutes_id = PInt 100\<rparr>),
                (PInt 30, \<lparr>video_minutes_id = PInt 300\<rparr>)],
      minutes_docs = [(PInt 100, \<lparr>minutes_user_id = PInt 7\<rparr>)],
      summaries = []\<rparr>"

definition demo_world :: "(store, nat) world" where
  "demo_world = \<lparr>db = demo_store, api = 0, trace = []\<rparr>"

text \<open>The stubbed answer \<^verbatim>\<open>"### Summary\nBudget discussed."\<close> as the single choice.\<close>

definition budget_summary :: string where
  "budget_summary = ''### Summary'' @ [CHR 0x0A] @ ''Budget discussed.''"

definition budget_reply :: "string + response" where
  "budget_reply = Inr \<lparr>choices = [\<lparr>message_content = budget_summary\<rparr>]\<rparr>"

section \<open>Basic facts\<close>

lemma emit_simps [simp]:
  "db (emit e w) = db w" "api (emit e w) = api w" "trace (emit e w) = trace w @ [e]"
  by (simp_all add: emit_def)

lemmas call_defs = crud_get_transcript_by_id_def crud_get_video_by_id_def crud_get_minutes_def
  crud_create_summary_def client_chat_completions_create_def logger_error_def logger_info_def

section \<open>The access validator\<close>

text \<open>
  Claim C1. For every environment, every state and every pair of transcript id and user
  id, the validator looks up the transcript, then the video the transcript refers to,
  then the minutes the video refers to, and stops at the first lookup that finds nothing:
  it raises \<^verbatim>\<open>HTTPException\<close> with status 404 when the transcript is absent, 404 when
  the video is absent, 404 when the minutes are absent, and 403 when the string form of
  the owner of the minutes differs from the string form of the requesting user. The trace
  of each case lists the calls made, so no later lookup is made once an earlier one has
  failed.
\<close>

theorem validate_access_permissions_failures:
  "(get_transcript_by_id E (db w) transcript_id = (Inr None, d1) \<longrightarrow>
      validate_access_permissions E w transcript_id user_id =
        (Inl (HTTPException 404 detail_transcript_not_found),
         w\<lparr>db := d1,
           trace := trace w @
             [GetTranscriptById transcript_id,
              LogError (log_transcript_not_found @ py_str transcript_id)]\<rparr>)) \<and>
   (get_transcript_by_id E (db w) transcript_id = (Inr (Some t), d1) \<and>
    get_video_by_id E d1 (transcript_video_id t) = (Inr None, d2) \<longrightarrow>
      validate_access_permissions E w transcript_id user_id =
        (Inl (HTTPException 404 detail_video_not_found),
         w\<lparr>db := d2,
           trace := trace w @
             [GetTranscriptById transcript_id, GetVideoById (transcript_video_id t)]\<rparr>)) \<and>
   (get_transcript_by_id E (db w) transcript_id = (Inr (Some t), d1) \<and>
    get_video_by_id E d1 (transcript_video_id t) = (Inr (Some v), d2) \<and>
    get_minutes E d2 (video_minutes_id v) = (Inr None, d3) \<longrightarrow>
      validate_access_permissions E w transcript_id user_id =
        (Inl (HTTPException 404 detail_minutes_not_found),
         w\<lparr>db := d3,
           trace := trace w @
             [GetTranscriptById transcript_id, GetVideoById (transcript_video_id t),
              GetMinutes (video_minutes_id v),
              LogError (log_minutes_not_found @ py_str (video_minutes_id v))]\<rparr>)) \<and>
   (get_transcript_by_id E (db w) transcript_id = (Inr (Some t), d1) \<and>
    get_video_by_id E d1 (transcript_video_id t) = (Inr (Some v), d2) \<and>
    get_minutes E d2 (video_minutes_id v) = (Inr (Some m), d3) \<and>
    py_str (minutes_user_id m) \<noteq> py_str user_id \<longrightarrow>
      validate_access_permissions E w transcript_id user_id =
        (Inl (HTTPException 403 detail_forbidden),
         w\<lparr>db := d3,
           trace := trace w @
             [GetTranscriptById transcript_id, GetVideoById (transcript_video_id t),
              GetMinutes (video_minutes_id v),
              LogError (log_forbidden @ py_str (minutes_user_id m) @ log_request_user_id @
                        py_str user_id)]\<rparr>))"
  by (simp add: validate_access_permissions_def call_defs emit_def)

lemmas demo_defs = demo_world_def demo_store_def mem_env_def

lemma str_int_7: "str_int 7 = ''7''"
  by code_simp

text \<open>The four failures on the in-memory tables: transcript 9 does not exist, transcript
  2 has no video, transcript 3 has a video without minutes, and transcript 1 belongs to
  user 7, not to user 8.\<close>

theorem validate_access_permissions_failures_witness:
  "validate_access_permissions (mem_env budget_reply) demo_world (PInt 9) (PStr ''7'') =
     (Inl (HTTPException 404 detail_transcript_not_found),
      demo_world\<lparr>trace :=
        [GetTranscriptById (PInt 9), LogError (log_transcript_not_found @ py_str (PInt 9))]\<rparr>) \<and>
   validate_access_permissions (mem_env budget_reply) demo_world (PInt 2) (PStr ''7'') =
     (Inl (HTTPException 404 detail_video_not_found),
      demo_world\<lparr>trace := [GetTranscriptById (PInt 2), GetVideoById (PInt 20)]\<rparr>) \<and>
   validate_access_permissions (mem_env budget_reply) demo_world (PInt 3) (PStr ''7'') =
     (Inl (HTTPException 404 detail_minutes_not_found),
      demo_world\<lparr>trace :=
        [GetTranscriptById (PInt 3), GetVideoById (PInt 30), GetMinutes (PInt 300),
         LogError (log_minutes_not_found @ py_str (PInt 300))]\<rparr>) \<and>
   validate_access_permissions (mem_env budget_reply) demo_world (PInt 1) (PStr ''8'') =
     (Inl (HTTPException 403 detail_forbidden),
      demo_world\<lparr>trace :=
        [GetTranscriptById (PInt 1), GetVideoById (PInt 10), GetMinutes (PInt 100),
         LogError (log_forbidden @ py_str (PInt 7) @ log_request_user_id @ py_str (PStr ''8''))]\<rparr>)"
proof -
  note th = validate_access_permissions_failures
    [where E = "mem_env budget_reply" and w = demo_world]
  have A: "validate_access_permissions (mem_env budget_reply) demo_world (PInt 9) (PStr ''7'') =
     (Inl (HTTPException 404 detail_transcript_not_found),
      demo_world\<lparr>trace :=
        [GetTranscriptById (PInt 9), LogError (log_transcript_not_found @ py_str (PInt 9))]\<rparr>)"
    using th [where transcript_id = "PInt 9" and ?d1.0 = demo_store and user_id = "PStr ''7''",
        THEN conjunct1]
    by (simp add: demo_defs)
  have B: "validate_access_permissions (mem_env budget_reply) demo_world (PInt 2) (PStr ''7'') =
     (Inl (HTTPException 404 detail_video_not_found),
      demo_world\<lparr>trace := [GetTranscriptById (PInt 2), GetVideoById (PInt 20)]\<rparr>)"
    using th [where transcript_id = "PInt 2" and ?d1.0 = demo_store and ?d2.0 = demo_store
        and user_id = "PStr ''7''"
        and t = "\<lparr>transcript_video_id = PInt 20, transcript_dot_content = Some ''Weekly sync.'',
              transcript_dot_text = None\<rparr>",
        THEN conjunct2, THEN conjunct1]
    by (simp add: demo_defs)
  have C: "validate_access_permissions (mem_env budget_reply) demo_world (PInt 3) (PStr ''7'') =
     (Inl (HTTPException 404 detail_minutes_not_found),
      demo_world\<lparr>trace :=
        [GetTranscriptById (PInt 3), GetVideoById (PInt 30), GetMinutes (PInt 300),
         LogError (log_minutes_not_found @ py_str (PInt 300))]\<rparr>)"
    using th [where transcript_id = "PInt 3" and ?d1.0 = demo_store and ?d2.0 = demo_store
        and ?d3.0 = demo_store and user_id = "PStr ''7''"
        and t = "\<lparr>transcript_video_id = PInt 30, transcript_dot_content = Some ''Kickoff.'',
              transcript_dot_text = None\<rparr>"
        and v = "\<lparr>video_minutes_id = PInt 300\<rparr>",
        THEN conjunct2, THEN conjunct2, THEN conjunct1]
    by (simp add: demo_defs)
  have D: "validate_access_permissions (mem_env budget_reply) demo_world (PInt 1) (PStr ''8'') =
     (Inl (HTTPException 403 detail_forbidden),
      demo_world\<lparr>trace :=
        [GetTranscriptById (PInt 1), GetVideoById (PInt 10), GetMinutes (PInt 100),
         LogError (log_forbidden @ py_str (PInt 7) @ log_request_user_id @ py_str (PStr ''8''))]\<rparr>)"
    using th [where transcript_id = "PInt 1" and ?d1.0 = demo_store and ?d2.0 = demo_store
        and ?d3.0 = demo_store and user_id = "PStr ''8''"
        and t = "\<lparr>transcript_video_id = PInt 10,
              transcript_dot_content = Some ''Meeting about budget.'',
              transcript_dot_text = None\<rparr>"
        and v = "\<lparr>video_minutes_id = PInt 100\<rparr>"
        and m = "\<lparr>minutes_user_id = PInt 7\<rparr>",
        THEN conjunct2, THEN conjunct2, THEN conjunct2]
    by (simp add: demo_defs str_int_7)
  from A B C D show ?thesis by blast
qed

section \<open>Frame and trace facts\<close>

lemma read_onlyD:
  assumes "lookups_read_only E"
  shows "get_transcript_by_id E d k = (r1, d1) \<Longrightarrow> d1 = d"
    and "get_video_by_id E d k = (r2, d2) \<Longrightarrow> d2 = d"
    and "get_minutes E d k = (r3, d3) \<Longrightarrow> d3 = d"
  using assms unfolding lookups_read_only_def by (metis snd_conv)+

lemma validate_api:
  "api (snd (validate_access_permissions E w tid uid)) = api w"
  by (simp add: validate_access_permissions_def call_defs
      split: prod.splits sum.splits option.splits)

lemma validate_effects:
  "effects (trace (snd (validate_access_permissions E w tid uid))) = effects (trace w)"
  by (simp add: validate_access_permissions_def call_defs effects_def
      split: prod.splits sum.splits option.splits)

lemma validate_db:
  "lookups_read_only E \<Longrightarrow> db (snd (validate_access_permissions E w tid uid)) = db w"
  by (auto simp add: validate_access_permissions_def call_defs
      split: prod.splits sum.splits option.splits dest: read_onlyD)

lemma validate_fst_trace:
  "db w' = db w \<Longrightarrow>
   fst (validate_access_permissions E w' tid uid) = fst (validate_access_permissions E w tid uid)"
  by (simp add: validate_access_permissions_def call_defs
      split: prod.splits sum.splits option.splits)

lemma validate_ok:
  "get_transcript_by_id E (db w) tid = (Inr (Some t), d1) \<Longrightarrow>
   get_video_by_id E d1 (transcript_video_id t) = (Inr (Some v), d2) \<Longrightarrow>
   get_minutes E d2 (video_minutes_id v) = (Inr (Some m), d3) \<Longrightarrow>
   py_str (minutes_user_id m) = py_str uid \<Longrightarrow>
   validate_access_permissions E w tid uid =
     (Inr (), w\<lparr>db := d3, trace := trace w @
        [GetTranscriptById tid, GetVideoById (transcript_video_id t),
         GetMinutes (video_minutes_id v)]\<rparr>)"
  by (simp add: validate_access_permissions_def call_defs emit_def)

lemma raise_internal_simps [simp]:
  "fst (raise_internal m w) = Inl (HTTPException 500 (error_prefix @ m))"
  "snd (raise_internal m w) = logger_error (error_prefix @ m) w"
  by (simp_all add: raise_internal_def Let_def)

lemma generate_trace:
  "\<exists>es. trace (snd (generate_summary_content E w tc)) = trace w @ es"
  by (simp add: generate_summary_content_def call_defs raise_internal_def Let_def
      split: prod.splits sum.splits list.splits)

lemma generate_traceD:
  "generate_summary_content E w tc = (r, w') \<Longrightarrow> \<exists>es. trace w' = trace w @ es"
  using generate_trace [of E w tc] by simp

lemma try_after_validation:
  "validate_access_permissions E
     (logger_info (log_request @ py_str tid @ log_user_id @ py_str uid) w) tid uid = (Inr u, w1) \<Longrightarrow>
   \<exists>es. trace (snd (process_summary_generation_try E w tid uid)) =
     trace w1 @ GetTranscriptById tid # es"
  by (auto simp add: process_summary_generation_try_def call_defs
      split: prod.splits sum.splits dest!: generate_traceD)

lemma process_trace_try:
  "\<exists>es. trace (snd (process_summary_generation E w tid uid)) =
     trace (snd (process_summary_generation_try E w tid uid)) @ es"
  by (simp add: process_summary_generation_def raise_internal_def Let_def call_defs
      split: prod.splits sum.splits exn.splits)

section \<open>Granting access\<close>

text \<open>
  Claim C2. Whenever the chain resolves (the transcript, its video and the video's
  minutes are all found), the validator raises no exception if and only if
  \<^verbatim>\<open>str(minutes.user_id)\<close> equals \<^verbatim>\<open>str(user_id)\<close>; and on equality the orchestrator goes on
  past validation: its next call, the second lookup of the transcript (line 115), is in
  the trace right after the three lookups of the validator.
\<close>

theorem validate_access_permissions_iff:
  assumes "get_transcript_by_id E (db w) transcript_id = (Inr (Some t), d1)"
    and "get_video_by_id E d1 (transcript_video_id t) = (Inr (Some v), d2)"
    and "get_minutes E d2 (video_minutes_id v) = (Inr (Some m), d3)"
  shows "(fst (validate_access_permissions E w transcript_id user_id) = Inr () \<longleftrightarrow>
            py_str (minutes_user_id m) = py_str user_id) \<and>
         (py_str (minutes_user_id m) = py_str user_id \<longrightarrow>
            (\<exists>es. trace (snd (process_summary_generation E w transcript_id user_id)) =
               trace w @
               [LogInfo (log_request @ py_str transcript_id @ log_user_id @ py_str user_id),
                GetTranscriptById transcript_id, GetVideoById (transcript_video_id t),
                GetMinutes (video_minutes_id v), GetTranscriptById transcript_id] @ es))"
proof (intro conjI impI)
  show "fst (validate_access_permissions E w transcript_id user_id) = Inr () \<longleftrightarrow>
          py_str (minutes_user_id m) = py_str user_id"
    using assms by (simp add: validate_access_permissions_def call_defs)
next
  assume eq: "py_str (minutes_user_id m) = py_str user_id"
  let ?w0 = "logger_info (log_request @ py_str transcript_id @ log_user_id @ py_str user_id) w"
  let ?w1 = "?w0\<lparr>db := d3, trace := trace ?w0 @
        [GetTranscriptById transcript_id, GetVideoById (transcript_video_id t),
         GetMinutes (video_minutes_id v)]\<rparr>"
  have "db ?w0 = db w"
    by (simp add: logger_info_def)
  with assms eq have ok: "validate_access_permissions E ?w0 transcript_id user_id = (Inr (), ?w1)"
    by (intro validate_ok) simp_all
  from try_after_validation [OF ok] obtain es where
    "trace (snd (process_summary_generation_try E w transcript_id user_id)) =
       trace ?w1 @ GetTranscriptById transcript_id # es"
    by blast
  moreover from process_trace_try [of E w transcript_id user_id] obtain es' where
    "trace (snd (process_summary_generation E w transcript_id user_id)) =
       trace (snd (process_summary_generation_try E w transcript_id user_id)) @ es'"
    by blast
  ultimately show "\<exists>es. trace (snd (process_summary_generation E w transcript_id user_id)) =
      trace w @
      [LogInfo (log_request @ py_str transcript_id @ log_user_id @ py_str user_id),
       GetTranscriptById transcript_id, GetVideoById (transcript_video_id t),
       GetMinutes (video_minutes_id v), GetTranscriptById transcript_id] @ es"
    by (simp add: logger_info_def)
qed

text \<open>On the in-memory tables the minutes of transcript 1 belong to user \<open>7\<close>, stored as
  an \<^verbatim>\<open>int\<close>: the request of user \<^verbatim>\<open>"7"\<close> is granted and goes on, that of \<^verbatim>\<open>"8"\<close> is
  not.\<close>

theorem validate_access_permissions_iff_witness:
  "fst (validate_access_permissions (mem_env budget_reply) demo_world (PInt 1) (PStr ''7'')) =
     Inr () \<and>
   fst (validate_access_permissions (mem_env budget_reply) demo_world (PInt 1) (PStr ''8'')) \<noteq>
     Inr () \<and>
   (\<exists>es. trace (snd (process_summary_generation (mem_env budget_reply) demo_world (PInt 1)
                       (PStr ''7''))) =
      [LogInfo (log_request @ py_str (PInt 1) @ log_user_id @ py_str (PStr ''7'')),
       GetTranscriptById (PInt 1), GetVideoById (PInt 10), GetMinutes (PInt 100),
       GetTranscriptById (PInt 1)] @ es)"
proof -
  note th = validate_access_permissions_iff
    [where E = "mem_env budget_reply" and w = demo_world and transcript_id = "PInt 1"
       and ?d1.0 = demo_store and ?d2.0 = demo_store and ?d3.0 = demo_store
       and t = "\<lparr>transcript_video_id = PInt 10,
              transcript_dot_content = Some ''Meeting about budget.'',
              transcript_dot_text = None\<rparr>"
       and v = "\<lparr>video_minutes_id = PInt 100\<rparr>"
       and m = "\<lparr>minutes_user_id = PInt 7\<rparr>"]
  have h1: "get_transcript_by_id (mem_env budget_reply) (db demo_world) (PInt 1) =
      (Inr (Some \<lparr>transcript_video_id = PInt 10,
              transcript_dot_content = Some ''Meeting about budget.'',
              transcript_dot_text = None\<rparr>), demo_store)"
    by (simp add: demo_defs)
  have h2: "get_video_by_id (mem_env budget_reply) demo_store
      (transcript_video_id \<lparr>transcript_video_id = PInt 10,
              transcript_dot_content = Some ''Meeting about budget.'',
              transcript_dot_text = None\<rparr>) =
      (Inr (Some \<lparr>video_minutes_id = PInt 100\<rparr>), demo_store)"
    by (simp add: demo_defs)
  have h3: "get_minutes (mem_env budget_reply) demo_store
      (video_minutes_id \<lparr>video_minutes_id = PInt 100\<rparr>) =
      (Inr (Some \<lparr>minutes_user_id = PInt 7\<rparr>), demo_store)"
    by (simp add: demo_defs)
  have s7: "py_str (minutes_user_id \<lparr>minutes_user_id = PInt 7\<rparr>) = py_str (PStr ''7'')"
    by (simp add: str_int_7)
  have s8: "py_str (minutes_user_id \<lparr>minutes_user_id = PInt 7\<rparr>) \<noteq> py_str (PStr ''8'')"
    by (simp add: str_int_7)
  from th [OF h1 h2 h3, of "PStr ''7''"] s7 th [OF h1 h2 h3, of "PStr ''8''"] s8
  show ?thesis
    by (simp add: demo_world_def)
qed

section \<open>A request that fails validation\<close>

text \<open>
  Claim C3. Whenever validation fails (the validator raises, which covers the three
  not-found cases and the forbidden case), the orchestrator raises as well, and it has
  made no request to the provider and no write: the provider state is the one it
  started from, the trace holds no new completion request and no new
  \<^verbatim>\<open>create_summary\<close> call, and, the lookups being read-only, the database state is
  the one it started from.
\<close>

theorem validation_failure_aborts:
  assumes "fst (validate_access_permissions E w transcript_id user_id) = Inl e"
  shows "(\<exists>e'. fst (process_summary_generation E w transcript_id user_id) = Inl e') \<and>
         api (snd (process_summary_generation E w transcript_id user_id)) = api w \<and>
         effects (trace (snd (process_summary_generation E w transcript_id user_id))) =
           effects (trace w) \<and>
         (lookups_read_only E \<longrightarrow>
            db (snd (process_summary_generation E w transcript_id user_id)) = db w)"
proof -
  let ?w0 = "logger_info (log_request @ py_str transcript_id @ log_user_id @ py_str user_id) w"
  obtain r w1 where v: "validate_access_permissions E ?w0 transcript_id user_id = (r, w1)"
    by fastforce
  have "db ?w0 = db w"
    by (simp add: logger_info_def)
  from validate_fst_trace [OF this, of E transcript_id user_id] assms v
  have r: "r = Inl e"
    by simp
  from validate_api [of E ?w0 transcript_id user_id] v have a: "api w1 = api w"
    by (simp add: logger_info_def)
  from validate_effects [of E ?w0 transcript_id user_id] v
  have f: "effects (trace w1) = effects (trace w)"
    by (simp add: logger_info_def effects_def)
  have d: "lookups_read_only E \<Longrightarrow> db w1 = db w"
    using validate_db [of E ?w0 transcript_id user_id] v by (simp add: logger_info_def)
  have t: "process_summary_generation_try E w transcript_id user_id = (Inl e, w1)"
    using v r by (simp add: process_summary_generation_try_def)
  show ?thesis
    using a f d
    by (cases e) (simp_all add: process_summary_generation_def t logger_error_def effects_def)
qed

text \<open>Transcript 9 does not exist and transcript 1 does not belong to user 8: both
  requests end in an exception with the provider and the tables untouched.\<close>

theorem validation_failure_aborts_witness:
  "lookups_read_only (mem_env budget_reply) \<and>
   fst (validate_access_permissions (mem_env budget_reply) demo_world (PInt 9) (PStr ''7'')) =
     Inl (HTTPException 404 detail_transcript_not_found) \<and>
   (\<exists>e'. fst (process_summary_generation (mem_env budget_reply) demo_world (PInt 9)
               (PStr ''7'')) = Inl e') \<and>
   api (snd (process_summary_generation (mem_env budget_reply) demo_world (PInt 9)
               (PStr ''7''))) = 0 \<and>
   effects (trace (snd (process_summary_generation (mem_env budget_reply) demo_world (PInt 9)
               (PStr ''7'')))) = [] \<and>
   db (snd (process_summary_generation (mem_env budget_reply) demo_world (PInt 9)
               (PStr ''7''))) = demo_store \<and>
   fst (validate_access_permissions (mem_env budget_reply) demo_world (PInt 1) (PStr ''8'')) =
     Inl (HTTPException 403 detail_forbidden) \<and>
   (\<exists>e'. fst (process_summary_generation (mem_env budget_reply) demo_world (PInt 1)
               (PStr ''8'')) = Inl e') \<and>
   api (snd (process_summary_generation (mem_env budget_reply) demo_world (PInt 1)
               (PStr ''8''))) = 0 \<and>
   effects (trace (snd (process_summary_generation (mem_env budget_reply) demo_world (PInt 1)
               (PStr ''8'')))) = [] \<and>
   db (snd (process_summary_generation (mem_env budget_reply) demo_world (PInt 1)
               (PStr ''8''))) = demo_store"
proof -
  have ro: "lookups_read_only (mem_env budget_reply)"
    by (simp add: lookups_read_only_def mem_env_def)
  have h9: "fst (validate_access_permissions (mem_env budget_reply) demo_world (PInt 9)
      (PStr ''7'')) = Inl (HTTPException 404 detail_transcript_not_found)"
    by (simp add: validate_access_permissions_def call_defs demo_defs)
  have h1: "fst (validate_access_permissions (mem_env budget_reply) demo_world (PInt 1)
      (PStr ''8'')) = Inl (HTTPException 403 detail_forbidden)"
    by (simp add: validate_access_permissions_def call_defs demo_defs str_int_7)
  have base: "api demo_world = 0" "trace demo_world = []" "db demo_world = demo_store"
    by (simp_all add: demo_world_def)
  from validation_failure_aborts [OF h9] validation_failure_aborts [OF h1] ro h9 h1
  show ?thesis
    by (simp add: base effects_def)
qed

section \<open>The summary generator\<close>

lemma generate_db:
  "db (snd (generate_summary_content E w tc)) = db w"
  by (simp add: generate_summary_content_def call_defs logger_error_def
      split: prod.splits sum.splits list.splits)

lemma generate_writes:
  "writes (trace (snd (generate_summary_content E w tc))) = writes (trace w)"
  by (simp add: generate_summary_content_def call_defs writes_def
      split: prod.splits sum.splits list.splits)

lemma completion_requests_append:
  "completion_requests (es @ es') = completion_requests es @ completion_requests es'"
  by (induction es rule: completion_requests.induct) simp_all

text \<open>
  Claim C4. Whatever exception the provider call raises, with \<^verbatim>\<open>str(e)\<close> the message
  \<open>str_e\<close>, the generator raises \<^verbatim>\<open>HTTPException\<close> with status 500 and the detail
  \<open>error_prefix @ str_e\<close>, which ends with the provider's message. The trace it leaves
  holds the one completion request and the log entry, so nothing is retried, and it
  holds no \<^verbatim>\<open>create_summary\<close> call; the database state is untouched.
\<close>

theorem generate_summary_content_provider_failure:
  assumes "chat_completions_create E (api w) (completion_request E transcript_content) =
             (Inl str_e, a')"
  shows "generate_summary_content E w transcript_content =
           (Inl (HTTPException 500 (error_prefix @ str_e)),
            w\<lparr>api := a',
              trace := trace w @
                [ChatCompletionsCreate (completion_request E transcript_content),
                 LogError (error_prefix @ str_e)]\<rparr>)"
  using assms
  by (simp add: generate_summary_content_def call_defs raise_internal_def Let_def emit_def)

text \<open>A provider that times out.\<close>

theorem generate_summary_content_provider_failure_witness:
  "generate_summary_content (mem_env (Inl ''Request timed out.'')) demo_world
     ''Meeting about budget.'' =
     (Inl (HTTPException 500 (error_prefix @ ''Request timed out.'')),
      demo_world\<lparr>api := 1,
        trace :=
          [ChatCompletionsCreate
             (completion_request (mem_env (Inl ''Request timed out.'')) ''Meeting about budget.''),
           LogError (error_prefix @ ''Request timed out.'')]\<rparr>)"
  using generate_summary_content_provider_failure
    [where E = "mem_env (Inl ''Request timed out.'')" and w = demo_world
       and transcript_content = "''Meeting about budget.''" and str_e = "''Request timed out.''"
       and a' = 1]
  by (simp add: demo_world_def mem_env_def)

text \<open>
  Claim C6. For every transcript text the generator sends exactly one completion request:
  the requests in the trace grow by one, which carries the fixed system instruction, the
  user message made of the fixed prefix and the transcript text, temperature 0.7 and
  \<^verbatim>\<open>max_tokens\<close> 1000. When the provider answers with at least one choice, the generator
  returns the content of the first one.
\<close>

theorem generate_summary_content_request:
  "completion_requests (trace (snd (generate_summary_content E w transcript_content))) =
     completion_requests (trace w) @ [completion_request E transcript_content] \<and>
   messages (completion_request E transcript_content) =
     [\<lparr>role = ''system'', content = system_prompt\<rparr>,
      \<lparr>role = ''user'', content = user_prompt @ transcript_content\<rparr>] \<and>
   temperature (completion_request E transcript_content) = 7 / 10 \<and>
   max_tokens (completion_request E transcript_content) = 1000 \<and>
   (chat_completions_create E (api w) (completion_request E transcript_content) =
      (Inr r, a') \<and> choices r = c # cs \<longrightarrow>
    fst (generate_summary_content E w transcript_content) = Inr (message_content c))"
proof (intro conjI impI)
  show "completion_requests (trace (snd (generate_summary_content E w transcript_content))) =
     completion_requests (trace w) @ [completion_request E transcript_content]"
    by (simp add: generate_summary_content_def call_defs completion_requests_append
        split: prod.splits sum.splits list.splits)
next
  assume "chat_completions_create E (api w) (completion_request E transcript_content) =
      (Inr r, a') \<and> choices r = c # cs"
  then show "fst (generate_summary_content E w transcript_content) = Inr (message_content c)"
    by (simp add: generate_summary_content_def call_defs)
qed (simp_all add: completion_request_def)

text \<open>The stubbed provider on the text of transcript 1.\<close>

theorem generate_summary_content_request_witness:
  "completion_requests
     (trace (snd (generate_summary_content (mem_env budget_reply) demo_world
                    ''Meeting about budget.''))) =
     [\<lparr>model = default_deployment,
       messages =
         [\<lparr>role = ''system'', content = system_prompt\<rparr>,
          \<lparr>role = ''user'', content = user_prompt @ ''Meeting about budget.''\<rparr>],
       temperature = 7 / 10, max_tokens = 1000\<rparr>] \<and>
   fst (generate_summary_content (mem_env budget_reply) demo_world ''Meeting about budget.'') =
     Inr budget_summary"
  using generate_summary_content_request
    [where E = "mem_env budget_reply" and w = demo_world
       and transcript_content = "''Meeting about budget.''"
       and r = "\<lparr>choices = [\<lparr>message_content = budget_summary\<rparr>]\<rparr>" and a' = 1
       and c = "\<lparr>message_content = budget_summary\<rparr>" and cs = "[]"]
  by (simp add: demo_world_def mem_env_def budget_reply_def completion_request_def)

section \<open>What the module writes\<close>

lemma writes_append [simp]: "writes (es @ es') = writes es @ writes es'"
  by (simp add: writes_def)

lemma validate_writes:
  "writes (trace (snd (validate_access_permissions E w tid uid))) = writes (trace w)"
  by (simp add: validate_access_permissions_def call_defs writes_def
      split: prod.splits sum.splits option.splits)

lemma validate_result:
  "validate_access_permissions E w tid uid = (r, w1) \<Longrightarrow>
   api w1 = api w \<and> writes (trace w1) = writes (trace w) \<and>
   (lookups_read_only E \<longrightarrow> db w1 = db w)"
  using validate_api [of E w tid uid] validate_writes [of E w tid uid]
    validate_db [of E w tid uid]
  by auto

lemma generate_result:
  "generate_summary_content E w tc = (r, w1) \<Longrightarrow>
   db w1 = db w \<and> writes (trace w1) = writes (trace w)"
  using generate_db [of E w tc] generate_writes [of E w tc] by auto

lemma try_frame:
  "(writes (trace (snd (process_summary_generation_try E w tid uid))) = writes (trace w) \<and>
    (lookups_read_only E \<longrightarrow> db (snd (process_summary_generation_try E w tid uid)) = db w)) \<or>
   (\<exists>c. writes (trace (snd (process_summary_generation_try E w tid uid))) =
          writes (trace w) @ [CreateSummary tid c] \<and>
        (lookups_read_only E \<longrightarrow>
           db (snd (process_summary_generation_try E w tid uid)) =
             snd (create_summary E (db w) tid c)))"
proof -
  let ?w0 = "logger_info (log_request @ py_str tid @ log_user_id @ py_str uid) w"
  have w0: "db ?w0 = db w" "writes (trace ?w0) = writes (trace w)"
    by (simp_all add: logger_info_def writes_def)
  obtain r1 w1 where v: "validate_access_permissions E ?w0 tid uid = (r1, w1)"
    by fastforce
  note f1 = validate_result [OF v]
  obtain r2 w2 where g: "crud_get_transcript_by_id E w1 tid = (r2, w2)"
    by fastforce
  have f2: "writes (trace w2) = writes (trace w1)" "lookups_read_only E \<Longrightarrow> db w2 = db w1"
    using g by (auto simp add: call_defs writes_def split: prod.splits dest: read_onlyD)
  show ?thesis
  proof (cases r1)
    case (Inl e)
    with v f1 w0 show ?thesis
      by (simp add: process_summary_generation_try_def)
  next
    case r1: (Inr u)
    show ?thesis
    proof (cases r2)
      case (Inl e)
      with v r1 g f1 f2 w0 show ?thesis
        by (simp add: process_summary_generation_try_def)
    next
      case r2: (Inr tr)
      show ?thesis
      proof (cases "read_transcript_content tr")
        case (Inl e)
        with v r1 g r2 f1 f2 w0 show ?thesis
          by (simp add: process_summary_generation_try_def)
      next
        case tc: (Inr tc)
        obtain r3 w3 where gen: "generate_summary_content E w2 tc = (r3, w3)"
          by fastforce
        note f3 = generate_result [OF gen]
        show ?thesis
        proof (cases r3)
          case (Inl e)
          with v r1 g r2 tc gen f1 f2 f3 w0 show ?thesis
            by (simp add: process_summary_generation_try_def)
        next
          case r3: (Inr sc)
          obtain r4 d4 where cr: "create_summary E (db w3) tid sc = (r4, d4)"
            by fastforce
          have "writes (trace (snd (process_summary_generation_try E w tid uid))) =
                  writes (trace w) @ [CreateSummary tid sc] \<and>
                (lookups_read_only E \<longrightarrow>
                   db (snd (process_summary_generation_try E w tid uid)) =
                     snd (create_summary E (db w) tid sc))"
            using v r1 g r2 tc gen r3 cr f1 f2 f3 w0
            by (cases r4) (auto simp add: process_summary_generation_try_def call_defs writes_def)
          then show ?thesis
            by blast
        qed
      qed
    qed
  qed
qed

lemma process_frame_of_try:
  "writes (trace (snd (process_summary_generation E w tid uid))) =
     writes (trace (snd (process_summary_generation_try E w tid uid))) \<and>
   db (snd (process_summary_generation E w tid uid)) =
     db (snd (process_summary_generation_try E w tid uid))"
  by (simp add: process_summary_generation_def logger_error_def writes_def
      split: prod.splits sum.splits exn.splits)

text \<open>
  Claim C9. The validator is read-only: it leaves the provider state as it was, it makes
  no \<^verbatim>\<open>create_summary\<close> call and no request to the provider (its trace grows by lookups
  and log entries only) and, the lookups being read-only, it leaves the database state as
  it was. The generator leaves the database state as it was and makes no
  \<^verbatim>\<open>create_summary\<close> call. The orchestrator either writes nothing, or makes exactly one
  write, the \<^verbatim>\<open>create_summary\<close> call of its persistence step for the transcript id it
  was given, and then the database state is the one that call leaves behind.
\<close>

theorem summary_is_the_only_write:
  "api (snd (validate_access_permissions E w transcript_id user_id)) = api w \<and>
   effects (trace (snd (validate_access_permissions E w transcript_id user_id))) =
     effects (trace w) \<and>
   (lookups_read_only E \<longrightarrow>
      db (snd (validate_access_permissions E w transcript_id user_id)) = db w) \<and>
   db (snd (generate_summary_content E w transcript_content)) = db w \<and>
   writes (trace (snd (generate_summary_content E w transcript_content))) = writes (trace w) \<and>
   ((writes (trace (snd (process_summary_generation E w transcript_id user_id))) =
       writes (trace w) \<and>
     (lookups_read_only E \<longrightarrow>
        db (snd (process_summary_generation E w transcript_id user_id)) = db w)) \<or>
    (\<exists>c. writes (trace (snd (process_summary_generation E w transcript_id user_id))) =
           writes (trace w) @ [CreateSummary transcript_id c] \<and>
         (lookups_read_only E \<longrightarrow>
            db (snd (process_summary_generation E w transcript_id user_id)) =
              snd (create_summary E (db w) transcript_id c))))"
  using validate_api [of E w transcript_id user_id]
    validate_effects [of E w transcript_id user_id]
    validate_db [of E w transcript_id user_id]
    generate_db [of E w transcript_content]
    generate_writes [of E w transcript_content]
    try_frame [of E w transcript_id user_id]
    process_frame_of_try [of E w transcript_id user_id]
  by simp

text \<open>On the in-memory tables: the validator leaves the store as it was, and after the
  orchestrator has run the transcripts, the videos and the minutes are the ones the store
  started with.\<close>

theorem summary_is_the_only_write_witness:
  "lookups_read_only (mem_env budget_reply) \<and>
   db (snd (validate_access_permissions (mem_env budget_reply) demo_world (PInt 1)
              (PStr ''7''))) = demo_store \<and>
   transcripts (db (snd (process_summary_generation (mem_env budget_reply) demo_world (PInt 1)
                           (PStr ''7'')))) = transcripts demo_store \<and>
   videos (db (snd (process_summary_generation (mem_env budget_reply) demo_world (PInt 1)
                      (PStr ''7'')))) = videos demo_store \<and>
   minutes_docs (db (snd (process_summary_generation (mem_env budget_reply) demo_world (PInt 1)
                            (PStr ''7'')))) = minutes_docs demo_store"
proof -
  have ro: "lookups_read_only (mem_env budget_reply)"
    by (simp add: lookups_read_only_def mem_env_def)
  have c: "create_summary (mem_env budget_reply) = mem_create_summary"
    by (simp add: mem_env_def)
  have base: "db demo_world = demo_store"
    by (simp add: demo_world_def)
  from summary_is_the_only_write
    [where E = "mem_env budget_reply" and w = demo_world and transcript_id = "PInt 1"
       and user_id = "PStr ''7''" and transcript_content = "[]"] ro
  show ?thesis
    by (auto simp add: base c mem_create_summary_def Let_def)
qed

section \<open>The orchestrator\<close>

lemma generate_ok:
  "chat_completions_create E (api w) (completion_request E tc) = (Inr r, a') \<Longrightarrow>
   choices r = c # cs \<Longrightarrow>
   generate_summary_content E w tc =
     (Inr (message_content c),
      w\<lparr>api := a', trace := trace w @ [ChatCompletionsCreate (completion_request E tc)]\<rparr>)"
  by (simp add: generate_summary_content_def call_defs emit_def)

text \<open>
  Claim C7. On a run where validation passes, the second lookup finds the transcript, its
  text can be read, the provider answers with at least one choice and the creation
  function returns a summary record, the orchestrator calls the creation function with
  the transcript id and the generated text (the \<^verbatim>\<open>CreateSummary\<close> entry of the trace) and
  returns the content of the record it got back. In particular, on the in-memory
  tables, where transcript 1 has the content \<^verbatim>\<open>"Meeting about budget."\<close>, with the
  provider stubbed to answer \<^verbatim>\<open>"### Summary\nBudget discussed."\<close> and a creation function
  that stores and returns the text it is given, the orchestrator stores and returns
  exactly that text.
\<close>

theorem process_summary_generation_success:
  assumes "validate_access_permissions E
             (logger_info (log_request @ py_str transcript_id @ log_user_id @ py_str user_id) w)
             transcript_id user_id = (Inr (), w1)"
    and "get_transcript_by_id E (db w1) transcript_id = (Inr (Some t), d2)"
    and "read_transcript_content (Some t) = Inr transcript_content"
    and "chat_completions_create E (api w1) (completion_request E transcript_content) =
           (Inr r, a3)"
    and "choices r = c # cs"
    and "create_summary E d2 transcript_id (message_content c) = (Inr s, d4)"
  shows "process_summary_generation E w transcript_id user_id =
           (Inr (summary_dot_content s),
            w1\<lparr>db := d4, api := a3,
               trace := trace w1 @
                 [GetTranscriptById transcript_id,
                  ChatCompletionsCreate (completion_request E transcript_content),
                  LogInfo log_generated,
                  CreateSummary transcript_id (message_content c),
                  LogInfo (log_saved @ py_str (summary_id s))]\<rparr>) \<and>
         process_summary_generation (mem_env budget_reply) demo_world (PInt 1) (PStr ''7'') =
           (Inr budget_summary,
            \<lparr>db = demo_store
                    \<lparr>summaries :=
                       [(PInt 1, \<lparr>summary_id = PInt 1, summary_dot_content = budget_summary\<rparr>)]\<rparr>,
             api = 1,
             trace =
               [LogInfo (log_request @ py_str (PInt 1) @ log_user_id @ py_str (PStr ''7'')),
                GetTranscriptById (PInt 1), GetVideoById (PInt 10), GetMinutes (PInt 100),
                GetTranscriptById (PInt 1),
                ChatCompletionsCreate
                  (completion_request (mem_env budget_reply) ''Meeting about budget.''),
                LogInfo log_generated,
                CreateSummary (PInt 1) budget_summary,
                LogInfo (log_saved @ py_str (PInt 1))]\<rparr>)"
proof
  show "process_summary_generation E w transcript_id user_id =
           (Inr (summary_dot_content s),
            w1\<lparr>db := d4, api := a3,
               trace := trace w1 @
                 [GetTranscriptById transcript_id,
                  ChatCompletionsCreate (completion_request E transcript_content),
                  LogInfo log_generated,
                  CreateSummary transcript_id (message_content c),
                  LogInfo (log_saved @ py_str (summary_id s))]\<rparr>)"
    using assms
    by (simp add: process_summary_generation_def process_summary_generation_try_def
        generate_ok call_defs emit_def)
next
  show "process_summary_generation (mem_env budget_reply) demo_world (PInt 1) (PStr ''7'') =
           (Inr budget_summary,
            \<lparr>db = demo_store
                    \<lparr>summaries :=
                       [(PInt 1, \<lparr>summary_id = PInt 1, summary_dot_content = budget_summary\<rparr>)]\<rparr>,
             api = 1,
             trace =
               [LogInfo (log_request @ py_str (PInt 1) @ log_user_id @ py_str (PStr ''7'')),
                GetTranscriptById (PInt 1), GetVideoById (PInt 10), GetMinutes (PInt 100),
                GetTranscriptById (PInt 1),
                ChatCompletionsCreate
                  (completion_request (mem_env budget_reply) ''Meeting about budget.''),
                LogInfo log_generated,
                CreateSummary (PInt 1) budget_summary,
                LogInfo (log_saved @ py_str (PInt 1))]\<rparr>)"
    by (simp add: process_summary_generation_def process_summary_generation_try_def
        validate_access_permissions_def generate_summary_content_def read_transcript_content_def
        call_defs emit_def demo_defs budget_reply_def mem_create_summary_def Let_def str_int_7)
qed

text \<open>Transcript 4 keeps its text in the attribute \<^verbatim>\<open>text\<close>: the same run on it.\<close>

theorem process_summary_generation_success_witness:
  "process_summary_generation (mem_env budget_reply) demo_world (PInt 4) (PStr ''7'') =
     (Inr budget_summary,
      \<lparr>db = demo_store
              \<lparr>summaries :=
                 [(PInt 4, \<lparr>summary_id = PInt 1, summary_dot_content = budget_summary\<rparr>)]\<rparr>,
       api = 1,
       trace =
         [LogInfo (log_request @ py_str (PInt 4) @ log_user_id @ py_str (PStr ''7'')),
          GetTranscriptById (PInt 4), GetVideoById (PInt 10), GetMinutes (PInt 100),
          GetTranscriptById (PInt 4),
          ChatCompletionsCreate (completion_request (mem_env budget_reply) ''Retrospective.''),
          LogInfo log_generated,
          CreateSummary (PInt 4) budget_summary,
          LogInfo (log_saved @ py_str (PInt 1))]\<rparr>)"
proof -
  let ?E = "mem_env budget_reply"
  let ?t = "\<lparr>transcript_video_id = PInt 10, transcript_dot_content = None,
             transcript_dot_text = Some ''Retrospective.''\<rparr>"
  let ?w1 = "\<lparr>db = demo_store, api = 0::nat,
              trace =
                [LogInfo (log_request @ py_str (PInt 4) @ log_user_id @ py_str (PStr ''7'')),
                 GetTranscriptById (PInt 4), GetVideoById (PInt 10), GetMinutes (PInt 100)]\<rparr>"
  let ?s = "\<lparr>summary_id = PInt 1, summary_dot_content = budget_summary\<rparr>"
  have v: "validate_access_permissions ?E
      (logger_info (log_request @ py_str (PInt 4) @ log_user_id @ py_str (PStr ''7'')) demo_world)
      (PInt 4) (PStr ''7'') = (Inr (), ?w1)"
    by (simp add: validate_access_permissions_def call_defs emit_def demo_defs str_int_7)
  have g: "get_transcript_by_id ?E (db ?w1) (PInt 4) = (Inr (Some ?t), demo_store)"
    by (simp add: demo_defs)
  have rd: "read_transcript_content (Some ?t) = Inr ''Retrospective.''"
    by (simp add: read_transcript_content_def)
  have p: "chat_completions_create ?E (api ?w1) (completion_request ?E ''Retrospective.'') =
      (Inr \<lparr>choices = [\<lparr>message_content = budget_summary\<rparr>]\<rparr>, 1)"
    by (simp add: mem_env_def budget_reply_def)
  have ch: "choices \<lparr>choices = [\<lparr>message_content = budget_summary\<rparr>]\<rparr> =
      \<lparr>message_content = budget_summary\<rparr> # []"
    by simp
  have cr: "create_summary ?E demo_store (PInt 4)
      (message_content \<lparr>message_content = budget_summary\<rparr>) =
      (Inr ?s, demo_store\<lparr>summaries := [(PInt 4, ?s)]\<rparr>)"
    by (simp add: mem_env_def mem_create_summary_def demo_store_def Let_def)
  from process_summary_generation_success [OF v g rd p ch cr, THEN conjunct1]
  show ?thesis
    by simp
qed

text \<open>
  Claim C10. After validation has passed, the orchestrator looks the transcript up again
  (line 115). If this second lookup returns \<^verbatim>\<open>None\<close>, line 116 reads an attribute of
  \<^verbatim>\<open>None\<close>, and the \<^verbatim>\<open>AttributeError\<close> is caught by the generic handler: the request ends
  with \<^verbatim>\<open>HTTPException\<close> of status 500, not the 404 that the validator raises for an
  absent transcript. The trace ends with the lookup and the log entry: no request to the
  provider and no \<^verbatim>\<open>create_summary\<close> call is made, before or after.
\<close>

theorem vanished_transcript_is_internal_error:
  assumes "validate_access_permissions E
             (logger_info (log_request @ py_str transcript_id @ log_user_id @ py_str user_id) w)
             transcript_id user_id = (Inr (), w1)"
    and "get_transcript_by_id E (db w1) transcript_id = (Inr None, d2)"
  shows "process_summary_generation E w transcript_id user_id =
           (Inl (HTTPException 500 (error_prefix @ attribute_error ''NoneType'' ''text'')),
            w1\<lparr>db := d2,
               trace := trace w1 @
                 [GetTranscriptById transcript_id,
                  LogError (error_prefix @ attribute_error ''NoneType'' ''text'')]\<rparr>) \<and>
         api w1 = api w \<and> effects (trace w1) = effects (trace w)"
proof (intro conjI)
  show "process_summary_generation E w transcript_id user_id =
           (Inl (HTTPException 500 (error_prefix @ attribute_error ''NoneType'' ''text'')),
            w1\<lparr>db := d2,
               trace := trace w1 @
                 [GetTranscriptById transcript_id,
                  LogError (error_prefix @ attribute_error ''NoneType'' ''text'')]\<rparr>)"
    using assms
    by (simp add: process_summary_generation_def process_summary_generation_try_def
        read_transcript_content_def raise_internal_def Let_def call_defs emit_def)
next
  let ?w0 = "logger_info (log_request @ py_str transcript_id @ log_user_id @ py_str user_id) w"
  from validate_api [of E ?w0 transcript_id user_id] assms(1) show "api w1 = api w"
    by (simp add: logger_info_def)
  from validate_effects [of E ?w0 transcript_id user_id] assms(1)
  show "effects (trace w1) = effects (trace w)"
    by (simp add: logger_info_def effects_def)
qed

text \<open>On a database where another session deletes transcript 1 right after the validator
  has read it, the request of its owner ends with status 500; the provider has received
  no request and no summary has been written.\<close>

theorem vanished_transcript_is_internal_error_witness:
  "process_summary_generation (racing_env budget_reply) demo_world (PInt 1) (PStr ''7'') =
     (Inl (HTTPException 500 (error_prefix @ attribute_error ''NoneType'' ''text'')),
      \<lparr>db = demo_store\<lparr>transcripts := tl (transcripts demo_store)\<rparr>,
       api = 0,
       trace =
         [LogInfo (log_request @ py_str (PInt 1) @ log_user_id @ py_str (PStr ''7'')),
          GetTranscriptById (PInt 1), GetVideoById (PInt 10), GetMinutes (PInt 100),
          GetTranscriptById (PInt 1),
          LogError (error_prefix @ attribute_error ''NoneType'' ''text'')]\<rparr>)"
proof -
  let ?E = "racing_env budget_reply"
  let ?d = "demo_store\<lparr>transcripts := tl (transcripts demo_store)\<rparr>"
  let ?w1 = "\<lparr>db = ?d, api = 0::nat,
              trace =
                [LogInfo (log_request @ py_str (PInt 1) @ log_user_id @ py_str (PStr ''7'')),
                 GetTranscriptById (PInt 1), GetVideoById (PInt 10), GetMinutes (PInt 100)]\<rparr>"
  have v: "validate_access_permissions ?E
      (logger_info (log_request @ py_str (PInt 1) @ log_user_id @ py_str (PStr ''7'')) demo_world)
      (PInt 1) (PStr ''7'') = (Inr (), ?w1)"
    by (simp add: validate_access_permissions_def call_defs emit_def racing_env_def demo_defs
        str_int_7)
  have g: "get_transcript_by_id ?E (db ?w1) (PInt 1) = (Inr None, ?d)"
    by (simp add: racing_env_def demo_defs)
  from vanished_transcript_is_internal_error [OF v g, THEN conjunct1]
  show ?thesis
    by simp
qed

section \<open>Propagation of failures\<close>

text \<open>
  Claim C5. An \<^verbatim>\<open>HTTPException\<close> raised by the validator, or by the generator once
  validation and the second lookup have passed, leaves the orchestrator as it was
  raised, with the same status code and detail. Any other exception raised inside the
  \<^verbatim>\<open>try\<close> block, with \<^verbatim>\<open>str(e)\<close> the message \<open>str_e\<close>, is logged and leaves the orchestrator
  as \<^verbatim>\<open>HTTPException\<close> of status 500 with the detail \<open>error_prefix @ str_e\<close>; in
  particular an exception of a lookup inside the validator does.
\<close>

theorem http_exceptions_pass_others_become_internal:
  "(fst (validate_access_permissions E w transcript_id user_id) =
      Inl (HTTPException status_code detail) \<longrightarrow>
    fst (process_summary_generation E w transcript_id user_id) =
      Inl (HTTPException status_code detail)) \<and>
   (validate_access_permissions E
      (logger_info (log_request @ py_str transcript_id @ log_user_id @ py_str user_id) w)
      transcript_id user_id = (Inr (), w1) \<and>
    crud_get_transcript_by_id E w1 transcript_id = (Inr r, w2) \<and>
    read_transcript_content r = Inr transcript_content \<and>
    generate_summary_content E w2 transcript_content =
      (Inl (HTTPException status_code' detail'), w3) \<longrightarrow>
    process_summary_generation E w transcript_id user_id =
      (Inl (HTTPException status_code' detail'), w3)) \<and>
   (process_summary_generation_try E w transcript_id user_id = (Inl (Exception str_e), w') \<longrightarrow>
    process_summary_generation E w transcript_id user_id =
      (Inl (HTTPException 500 (error_prefix @ str_e)),
       w'\<lparr>trace := trace w' @ [LogError (error_prefix @ str_e)]\<rparr>)) \<and>
   (fst (validate_access_permissions E w transcript_id user_id) = Inl (Exception str_e') \<longrightarrow>
    fst (process_summary_generation E w transcript_id user_id) =
      Inl (HTTPException 500 (error_prefix @ str_e')))"
proof (intro conjI impI)
  let ?w0 = "logger_info (log_request @ py_str transcript_id @ log_user_id @ py_str user_id) w"
  have fst_eq: "fst (validate_access_permissions E ?w0 transcript_id user_id) =
      fst (validate_access_permissions E w transcript_id user_id)"
    by (rule validate_fst_trace) (simp add: logger_info_def)
  {
    fix e
    assume "fst (validate_access_permissions E w transcript_id user_id) = Inl e"
    with fst_eq obtain w1 where
      "validate_access_permissions E ?w0 transcript_id user_id = (Inl e, w1)"
      by (cases "validate_access_permissions E ?w0 transcript_id user_id") simp
    then have "fst (process_summary_generation_try E w transcript_id user_id) = Inl e"
      by (simp add: process_summary_generation_try_def)
  }
  note try_raises = this
  {
    assume "fst (validate_access_permissions E w transcript_id user_id) =
      Inl (HTTPException status_code detail)"
    from try_raises [OF this]
    show "fst (process_summary_generation E w transcript_id user_id) =
      Inl (HTTPException status_code detail)"
      by (auto simp add: process_summary_generation_def split: prod.splits)
  }
  {
    assume "fst (validate_access_permissions E w transcript_id user_id) = Inl (Exception str_e')"
    from try_raises [OF this]
    show "fst (process_summary_generation E w transcript_id user_id) =
      Inl (HTTPException 500 (error_prefix @ str_e'))"
      by (auto simp add: process_summary_generation_def split: prod.splits)
  }
  {
    assume "validate_access_permissions E ?w0 transcript_id user_id = (Inr (), w1) \<and>
      crud_get_transcript_by_id E w1 transcript_id = (Inr r, w2) \<and>
      read_transcript_content r = Inr transcript_content \<and>
      generate_summary_content E w2 transcript_content =
        (Inl (HTTPException status_code' detail'), w3)"
    then show "process_summary_generation E w transcript_id user_id =
      (Inl (HTTPException status_code' detail'), w3)"
      by (simp add: process_summary_generation_def process_summary_generation_try_def)
  }
  {
    assume "process_summary_generation_try E w transcript_id user_id =
      (Inl (Exception str_e), w')"
    then show "process_summary_generation E w transcript_id user_id =
      (Inl (HTTPException 500 (error_prefix @ str_e)),
       w'\<lparr>trace := trace w' @ [LogError (error_prefix @ str_e)]\<rparr>)"
      by (simp add: process_summary_generation_def raise_internal_def Let_def
          logger_error_def emit_def)
  }
qed

section \<open>Logging of validation failures\<close>

text \<open>
  Claim C8 says that each of the four failing cases of the validator logs an entry with
  the ids of the case before it raises. The cases of an absent transcript, of absent
  minutes and of a foreign owner do (the \<^verbatim>\<open>LogError\<close> entries in the traces of claim C1);
  the case of an absent video, lines 39 to 43, raises without logging. On the in-memory
  tables, transcript 2 refers to video 20, which does not exist: the validator raises
  404 and its trace holds the two lookups and no log entry.
\<close>

theorem video_not_found_is_not_logged:
  "validate_access_permissions (mem_env budget_reply) demo_world (PInt 2) (PStr ''7'') =
     (Inl (HTTPException 404 detail_video_not_found),
      \<lparr>db = demo_store, api = 0,
       trace = [GetTranscriptById (PInt 2), GetVideoById (PInt 20)]\<rparr>) \<and>
   filter is_log
     (trace (snd (validate_access_permissions (mem_env budget_reply) demo_world (PInt 2)
                    (PStr ''7'')))) = []"
  by (simp add: validate_access_permissions_def call_defs emit_def demo_defs)

text \<open>Four runs on the in-memory tables: a forbidden request, a provider that times
  out, a database that refuses the write, and a database whose transcript lookup
  raises.\<close>

theorem http_exceptions_pass_others_become_internal_witness:
  "fst (process_summary_generation (mem_env budget_reply) demo_world (PInt 1) (PStr ''8'')) =
     Inl (HTTPException 403 detail_forbidden) \<and>
   fst (process_summary_generation (mem_env (Inl ''Request timed out.'')) demo_world (PInt 1)
          (PStr ''7'')) =
     Inl (HTTPException 500 (error_prefix @ ''Request timed out.'')) \<and>
   fst (process_summary_generation (broken_env ''database is locked'' budget_reply) demo_world
          (PInt 1) (PStr ''7'')) =
     Inl (HTTPException 500 (error_prefix @ ''database is locked'')) \<and>
   fst (process_summary_generation
          ((mem_env budget_reply)
             \<lparr>get_transcript_by_id := (\<lambda>s k. (Inl (Exception ''connection lost''), s))\<rparr>)
          demo_world (PInt 1) (PStr ''7'')) =
     Inl (HTTPException 500 (error_prefix @ ''connection lost''))"
proof -
  let ?msg = "log_request @ py_str (PInt 1) @ log_user_id @ py_str (PStr ''7'')"
  let ?t1 = "\<lparr>transcript_video_id = PInt 10,
              transcript_dot_content = Some ''Meeting about budget.'',
              transcript_dot_text = None\<rparr>"
  have A: "fst (validate_access_permissions (mem_env budget_reply) demo_world (PInt 1)
      (PStr ''8'')) = Inl (HTTPException 403 detail_forbidden)"
    by (simp add: validate_access_permissions_def call_defs demo_defs str_int_7)
  let ?E = "mem_env (Inl ''Request timed out.'')"
  let ?w1 = "\<lparr>db = demo_store, api = 0::nat,
              trace = [LogInfo ?msg, GetTranscriptById (PInt 1), GetVideoById (PInt 10),
                       GetMinutes (PInt 100)]\<rparr>"
  let ?w2 = "\<lparr>db = demo_store, api = 0::nat,
              trace = [LogInfo ?msg, GetTranscriptById (PInt 1), GetVideoById (PInt 10),
                       GetMinutes (PInt 100), GetTranscriptById (PInt 1)]\<rparr>"
  let ?w3 = "snd (generate_summary_content ?E ?w2 ''Meeting about budget.'')"
  have B: "validate_access_permissions ?E (logger_info ?msg demo_world) (PInt 1) (PStr ''7'') =
        (Inr (), ?w1) \<and>
      crud_get_transcript_by_id ?E ?w1 (PInt 1) = (Inr (Some ?t1), ?w2) \<and>
      read_transcript_content (Some ?t1) = Inr ''Meeting about budget.'' \<and>
      generate_summary_content ?E ?w2 ''Meeting about budget.'' =
        (Inl (HTTPException 500 (error_prefix @ ''Request timed out.'')), ?w3)"
    by (simp add: validate_access_permissions_def generate_summary_content_def
        read_transcript_content_def raise_internal_def Let_def call_defs emit_def demo_defs
        str_int_7)
  let ?F = "broken_env ''database is locked'' budget_reply"
  let ?w' = "snd (process_summary_generation_try ?F demo_world (PInt 1) (PStr ''7''))"
  have C: "process_summary_generation_try ?F demo_world (PInt 1) (PStr ''7'') =
      (Inl (Exception ''database is locked''), ?w')"
    by (simp add: process_summary_generation_try_def validate_access_permissions_def
        generate_summary_content_def read_transcript_content_def call_defs emit_def
        broken_env_def demo_defs budget_reply_def str_int_7)
  let ?G = "(mem_env budget_reply)
             \<lparr>get_transcript_by_id := (\<lambda>s k. (Inl (Exception ''connection lost''), s))\<rparr>"
  have D: "fst (validate_access_permissions ?G demo_world (PInt 1) (PStr ''7'')) =
      Inl (Exception ''connection lost'')"
    by (simp add: validate_access_permissions_def call_defs demo_defs)
  note th = http_exceptions_pass_others_become_internal
  from th [where E = "mem_env budget_reply" and w = demo_world and transcript_id = "PInt 1"
        and user_id = "PStr ''8''" and status_code = 403 and detail = detail_forbidden,
        THEN conjunct1] A
  have a: "fst (process_summary_generation (mem_env budget_reply) demo_world (PInt 1)
      (PStr ''8'')) = Inl (HTTPException 403 detail_forbidden)"
    by simp
  from th [where E = ?E and w = demo_world and transcript_id = "PInt 1"
        and user_id = "PStr ''7''" and ?w1.0 = ?w1 and r = "Some ?t1" and ?w2.0 = ?w2
        and transcript_content = "''Meeting about budget.''" and status_code' = 500
        and detail' = "error_prefix @ ''Request timed out.''" and ?w3.0 = ?w3,
        THEN conjunct2, THEN conjunct1, THEN mp, OF B]
  have b: "fst (process_summary_generation ?E demo_world (PInt 1) (PStr ''7'')) =
      Inl (HTTPException 500 (error_prefix @ ''Request timed out.''))"
    by (simp only: fst_conv)
  from th [where E = ?F and w = demo_world and transcript_id = "PInt 1"
        and user_id = "PStr ''7''" and str_e = "''database is locked''" and w' = ?w',
        THEN conjunct2, THEN conjunct2, THEN conjunct1, THEN mp, OF C]
  have c: "fst (process_summary_generation ?F demo_world (PInt 1) (PStr ''7'')) =
      Inl (HTTPException 500 (error_prefix @ ''database is locked''))"
    by (simp only: fst_conv)
  from th [where E = ?G and w = demo_world and transcript_id = "PInt 1"
        and user_id = "PStr ''7''" and str_e' = "''connection lost''",
        THEN conjunct2, THEN conjunct2, THEN conjunct2] D
  have d: "fst (process_summary_generation ?G demo_world (PInt 1) (PStr ''7'')) =
      Inl (HTTPException 500 (error_prefix @ ''connection lost''))"
    by simp
  from a b c d show ?thesis
    by blast
qed

end
